theory Spec2Isabelle
  imports Complex_Main
begin

unbundle bit_operations_syntax

section \<open>Circlo rental backend: bookings and Razorpay payments\<close>

text \<open>
  A shallow embedding of four handlers of \<^verbatim>\<open>backend/routes/api.js\<close>:
  \<^verbatim>\<open>POST /bookings\<close>, \<^verbatim>\<open>PUT /bookings/:id/status\<close>,
  \<^verbatim>\<open>POST /payments/create-order\<close> and \<^verbatim>\<open>POST /payments/verify\<close>.

  The SAP HANA tables \<^verbatim>\<open>Items\<close> and \<^verbatim>\<open>Bookings\<close> are lists of rows; a handler
  takes the tables and returns its HTTP response together with the tables afterwards.
  Identifiers, statuses and payment statuses are the strings the code stores.
  A calendar date is the number of days since 1970-01-01; the requests considered carry
  date-only ISO strings, so \<^verbatim>\<open>new Date(s)\<close> is midnight UTC of that day.
  The arithmetic of the payment handlers is JavaScript's: binary64 floating point, with
  every operation rounded to the nearest double.
\<close>

subsection \<open>Calendar dates\<close>

text \<open>
  The day number of the date \<open>y-m-d\<close> of the proleptic Gregorian calendar, counted from
  1970-01-01. It gives the order in which the database compares two dates and the
  value JavaScript parses a date-only ISO string to.
\<close>

definition days_from_civil :: "int \<Rightarrow> int \<Rightarrow> int \<Rightarrow> int" where
  "days_from_civil y m d =
     (let y' = (if m \<le> 2 then y - 1 else y);
          era = y' div 400;
          yoe = y' - era * 400;
          doy = (153 * (if m > 2 then m - 3 else m + 9) + 2) div 5 + d - 1;
          doe = yoe * 365 + yoe div 4 - yoe div 100 + doy
      in era * 146097 + doe - 719468)"

subsection \<open>JavaScript numbers\<close>

text \<open>
  A JavaScript number is a value of type \<open>rat option\<close>: \<open>Some x\<close> is the finite double
  \<open>x\<close>, and \<open>None\<close> stands for \<^verbatim>\<open>NaN\<close>, \<^verbatim>\<open>Infinity\<close> and \<^verbatim>\<open>-Infinity\<close>.
  The three are kept together because every operation the handlers use yields one of
  them as soon as an operand is one of them, and \<^verbatim>\<open>JSON.stringify\<close> writes each of
  them as \<^verbatim>\<open>null\<close>. The sign of zero is not kept; it shows in no result.

  \<open>bit_length n\<close> is the number of binary digits of \<open>n\<close>, and \<open>exponent_of x\<close> is the
  integer \<open>e\<close> with \<open>2 ^ e \<le> \<bar>x\<bar> < 2 ^ (e + 1)\<close>, for \<open>x \<noteq> 0\<close>.
\<close>

fun bit_length :: "nat \<Rightarrow> nat" where
  "bit_length n = (if n = 0 then 0 else Suc (bit_length (n div 2)))"

declare bit_length.simps [simp del]

definition pow2 :: "int \<Rightarrow> rat" where
  "pow2 k = (if k \<ge> 0 then 2 ^ nat k else 1 / 2 ^ nat (- k))"

definition exponent_of :: "rat \<Rightarrow> int" where
  "exponent_of x =
     (if \<bar>x\<bar> \<ge> 1 then int (bit_length (nat \<lfloor>\<bar>x\<bar>\<rfloor>)) - 1
      else - int (bit_length (nat (\<lceil>1 / \<bar>x\<bar>\<rceil> - 1))))"

text \<open>Rounding to the nearest integer, a tie going to the even neighbour.\<close>

definition round_half_even :: "rat \<Rightarrow> int" where
  "round_half_even x =
     (if x - of_int \<lfloor>x\<rfloor> < 1 / 2 then \<lfloor>x\<rfloor>
      else if x - of_int \<lfloor>x\<rfloor> > 1 / 2 then \<lfloor>x\<rfloor> + 1
      else if even \<lfloor>x\<rfloor> then \<lfloor>x\<rfloor> else \<lfloor>x\<rfloor> + 1)"

text \<open>
  Rounding to 53 significant binary digits at exponent \<open>e\<close>: to the nearest multiple of
  \<open>2 ^ (e - 52)\<close>.
\<close>

definition round_at :: "int \<Rightarrow> rat \<Rightarrow> rat" where
  "round_at e x = of_int (round_half_even (x / pow2 (e - 52))) * pow2 (e - 52)"

text \<open>
  The double nearest to a rational number (IEEE 754 round to nearest, ties to even):
  below the exponent \<open>- 1022\<close> the spacing stays that of the subnormal numbers, and a
  result of magnitude \<open>2 ^ 1024\<close> or more is an infinity.
\<close>

definition to_double :: "rat \<Rightarrow> rat option" where
  "to_double x =
     (if x = 0 then Some 0
      else if \<bar>round_at (max (exponent_of x) (- 1022)) x\<bar> \<ge> pow2 1024 then None
      else Some (round_at (max (exponent_of x) (- 1022)) x))"

definition js_add :: "rat option \<Rightarrow> rat option \<Rightarrow> rat option" where
  "js_add a b = (case (a, b) of (Some x, Some y) \<Rightarrow> to_double (x + y) | _ \<Rightarrow> None)"

definition js_sub :: "rat option \<Rightarrow> rat option \<Rightarrow> rat option" where
  "js_sub a b = (case (a, b) of (Some x, Some y) \<Rightarrow> to_double (x - y) | _ \<Rightarrow> None)"

definition js_mul :: "rat option \<Rightarrow> rat option \<Rightarrow> rat option" where
  "js_mul a b = (case (a, b) of (Some x, Some y) \<Rightarrow> to_double (x * y) | _ \<Rightarrow> None)"

definition js_div :: "rat option \<Rightarrow> rat option \<Rightarrow> rat option" where
  "js_div a b =
     (case (a, b) of
        (Some x, Some y) \<Rightarrow> if y = 0 then None else to_double (x / y)
      | _ \<Rightarrow> None)"

text \<open>\<^verbatim>\<open>Math.ceil\<close>; the ceiling of a double is a double.\<close>

definition Math_ceil :: "rat option \<Rightarrow> rat option" where
  "Math_ceil a = map_option (\<lambda>x. of_int \<lceil>x\<rceil>) a"

text \<open>
  \<^verbatim>\<open>new Date(s)\<close> as a number, for a date-only ISO string \<open>s\<close> given by its day
  number: the milliseconds since the epoch, or \<^verbatim>\<open>NaN\<close> when \<open>s\<close> does not parse or
  the time lies more than 8640000000000000 milliseconds from the epoch.
\<close>

definition new_Date :: "int option \<Rightarrow> rat option" where
  "new_Date d =
     (case d of
        None \<Rightarrow> None
      | Some n \<Rightarrow> if \<bar>n * 86400000\<bar> \<le> 8640000000000000 then Some (of_int (n * 86400000))
                  else None)"

subsection \<open>Tables\<close>

record item =
  i_id :: string
  i_owner_id :: string
  i_price :: rat

record booking =
  b_id :: string
  b_user_id :: string
  b_item_id :: string
  b_start_date :: int
  b_end_date :: int
  b_status :: string
  b_payment_status :: string

text \<open>
  An order opened at the payment gateway by \<^verbatim>\<open>razorpay.orders.create\<close>. The backend
  keeps no table of them; the list below is the gateway's own record. The amount is the
  JavaScript number the handler passes to the gateway.
\<close>

record rzp_order =
  o_id :: string
  o_amount :: "rat option"
  o_receipt :: string
  o_booking_id :: string

record world =
  Items :: "item list"
  Bookings :: "booking list"
  rzp_orders :: "rzp_order list"

subsection \<open>Requests and responses\<close>

datatype token = NoToken | InvalidToken | ValidToken string

record breakdown =
  rent_payment :: "rat option"
  platform_fee :: "rat option"
  safety_deposit :: rat
  total :: "rat option"

record order_response =
  order_id :: string
  amount :: "rat option"
  currency :: string
  breakdown_of :: breakdown

datatype response =
    Err nat string
  | ValidationErrors
  | BookingCreated string
  | StatusUpdated
  | OrderCreated order_response
  | PaymentVerified string

text \<open>
  Body of \<^verbatim>\<open>POST /bookings\<close>. A field is \<open>None\<close> when its validator
  (\<^verbatim>\<open>isUUID\<close>, \<^verbatim>\<open>isISO8601\<close>) rejects it.
\<close>

record booking_body =
  item_id :: "string option"
  start_date :: "int option"
  end_date :: "int option"

text \<open>
  Body of \<^verbatim>\<open>POST /payments/create-order\<close>; nothing validates it, and a date is
  \<open>None\<close> when \<^verbatim>\<open>new Date\<close> yields an invalid date.
\<close>

record order_body =
  ob_booking_id :: string
  ob_item_id :: string
  ob_start_date :: "int option"
  ob_end_date :: "int option"

record verify_body =
  razorpay_order_id :: string
  razorpay_payment_id :: string
  razorpay_signature :: string
  vb_booking_id :: string

subsection \<open>Middleware\<close>

fun authenticateToken :: "token \<Rightarrow> response + string" where
  "authenticateToken NoToken = Inl (Err 401 ''Access token required'')"
| "authenticateToken InvalidToken = Inl (Err 403 ''Invalid token'')"
| "authenticateToken (ValidToken user) = Inr user"

subsection \<open>POST /bookings\<close>

text \<open>
  Lines 620 to 711 of \<^verbatim>\<open>api.js\<close>. The three disjuncts of the overlap query come
  first, with the dates of the row before the dates of the request:
  \<^verbatim>\<open>(start_date <= ? AND end_date >= ?) OR (start_date <= ? AND end_date >= ?) OR
  (start_date >= ? AND end_date <= ?)\<close> with parameters start, start, end, end, start, end.
\<close>

definition overlap_clause :: "int \<Rightarrow> int \<Rightarrow> int \<Rightarrow> int \<Rightarrow> bool" where
  "overlap_clause row_start row_end start end \<longleftrightarrow>
     (row_start \<le> start \<and> row_end \<ge> start) \<or>
     (row_start \<le> end \<and> row_end \<ge> end) \<or>
     (row_start \<ge> start \<and> row_end \<le> end)"

definition overlapCheck :: "booking list \<Rightarrow> string \<Rightarrow> int \<Rightarrow> int \<Rightarrow> booking list" where
  "overlapCheck rows item start end =
     filter (\<lambda>b. b_item_id b = item
                \<and> b_status b \<notin> set [''cancelled'', ''rejected'']
                \<and> overlap_clause (b_start_date b) (b_end_date b) start end) rows"

text \<open>
  The handler, after \<^verbatim>\<open>authenticateToken\<close> and the validators. \<open>conn\<close> tells
  whether \<^verbatim>\<open>getDBConnection\<close> resolves (a rejection is caught and answered with
  status 500); \<open>bookingId\<close> is the value \<^verbatim>\<open>uuidv4()\<close> returns. The new row is
  inserted with status \<open>pending\<close> and payment status \<open>unpaid\<close>.
\<close>

definition post_bookings ::
  "token \<Rightarrow> bool \<Rightarrow> string \<Rightarrow> booking_body \<Rightarrow> world \<Rightarrow> response \<times> world" where
  "post_bookings tok conn bookingId body w =
     (case authenticateToken tok of
        Inl r \<Rightarrow> (r, w)
      | Inr user \<Rightarrow>
          (case (item_id body, start_date body, end_date body) of
             (Some item, Some start, Some end) \<Rightarrow>
               if \<not> conn then (Err 500 ''Failed to create booking'', w)
               else
                 (case filter (\<lambda>i. i_id i = item) (Items w) of
                    [] \<Rightarrow> (Err 404 ''Item not found'', w)
                  | itemCheck0 # _ \<Rightarrow>
                      if i_owner_id itemCheck0 = user
                      then (Err 400 ''Cannot book your own item'', w)
                      else if length (overlapCheck (Bookings w) item start end) > 0
                      then (Err 400 ''Item is not available for selected dates'', w)
                      else (BookingCreated bookingId,
                            w\<lparr>Bookings := Bookings w @
                               [\<lparr>b_id = bookingId, b_user_id = user, b_item_id = item,
                                 b_start_date = start, b_end_date = end,
                                 b_status = ''pending'', b_payment_status = ''unpaid''\<rparr>]\<rparr>))
           | _ \<Rightarrow> (ValidationErrors, w)))"

subsection \<open>PUT /bookings/:id/status\<close>

text \<open>
  Lines 757 to 809. The owner check joins \<^verbatim>\<open>Bookings\<close> with \<^verbatim>\<open>Items\<close> on the item
  and keeps the rows with the given booking identifier whose item belongs to the user.
\<close>

definition ownerCheck :: "world \<Rightarrow> string \<Rightarrow> string \<Rightarrow> booking list" where
  "ownerCheck w bookingId user =
     filter (\<lambda>b. b_id b = bookingId
                \<and> list_ex (\<lambda>i. i_id i = b_item_id b \<and> i_owner_id i = user) (Items w))
            (Bookings w)"

text \<open>\<^verbatim>\<open>UPDATE Bookings SET status = ? WHERE id = ?\<close>\<close>

definition update_status :: "string \<Rightarrow> string \<Rightarrow> booking list \<Rightarrow> booking list" where
  "update_status status bookingId rows =
     map (\<lambda>b. if b_id b = bookingId then b\<lparr>b_status := status\<rparr> else b) rows"

definition put_bookings_status ::
  "token \<Rightarrow> bool \<Rightarrow> string \<Rightarrow> string \<Rightarrow> world \<Rightarrow> response \<times> world" where
  "put_bookings_status tok conn bookingId status w =
     (case authenticateToken tok of
        Inl r \<Rightarrow> (r, w)
      | Inr user \<Rightarrow>
          if status \<notin> set [''confirmed'', ''rejected'', ''completed'', ''cancelled'']
          then (ValidationErrors, w)
          else if \<not> conn then (Err 500 ''Failed to update booking'', w)
          else if length (ownerCheck w bookingId user) = 0
          then (Err 403 ''Not authorized to update this booking'', w)
          else (StatusUpdated, w\<lparr>Bookings := update_status status bookingId (Bookings w)\<rparr>))"

subsection \<open>POST /payments/create-order\<close>

text \<open>
  Lines 1382 to 1452.
  \<^verbatim>\<open>daysDiff = Math.ceil((endDate - startDate) / (1000 * 60 * 60 * 24))\<close>; the result is
  \<^verbatim>\<open>NaN\<close> when a date does not parse.
\<close>

definition daysDiff :: "int option \<Rightarrow> int option \<Rightarrow> rat option" where
  "daysDiff startDate endDate =
     Math_ceil (js_div (js_sub (new_Date endDate) (new_Date startDate))
                       (Some (1000 * 60 * 60 * 24)))"

text \<open>
  The price read from the row becomes a number when it is multiplied; \<^verbatim>\<open>0.15\<close> is
  the double nearest to 15 / 100.
  \<^verbatim>\<open>rentPayment = Math.ceil(PRICE * daysDiff)\<close>,
  \<^verbatim>\<open>platformFee = Math.ceil(rentPayment * 0.15)\<close>, \<^verbatim>\<open>safetyDeposit = 200\<close>,
  \<^verbatim>\<open>totalAmount = rentPayment + platformFee + safetyDeposit\<close>.
\<close>

definition compute_breakdown :: "rat \<Rightarrow> rat option \<Rightarrow> breakdown" where
  "compute_breakdown PRICE days =
     (let rentPayment = Math_ceil (js_mul (to_double PRICE) days);
          platformFee = Math_ceil (js_mul rentPayment (to_double (15 / 100)));
          safetyDeposit = 200;
          totalAmount = js_add (js_add rentPayment platformFee) (Some safetyDeposit)
      in \<lparr>rent_payment = rentPayment, platform_fee = platformFee,
          safety_deposit = safetyDeposit, total = totalAmount\<rparr>)"

text \<open>
  \<open>gateway\<close> is the outcome of \<^verbatim>\<open>razorpay.orders.create\<close>: the identifier of the
  new order, or \<open>None\<close> when the call throws. The amount passed to the gateway is
  \<^verbatim>\<open>totalAmount * 100\<close>; the response carries \<^verbatim>\<open>totalAmount\<close> itself.
\<close>

definition payments_create_order ::
  "token \<Rightarrow> bool \<Rightarrow> string option \<Rightarrow> order_body \<Rightarrow> world \<Rightarrow> response \<times> world" where
  "payments_create_order tok conn gateway body w =
     (case authenticateToken tok of
        Inl r \<Rightarrow> (r, w)
      | Inr user \<Rightarrow>
          if \<not> conn then (Err 500 ''Failed to create payment order'', w)
          else
            (case filter (\<lambda>i. i_id i = ob_item_id body) (Items w) of
               [] \<Rightarrow> (Err 404 ''Item not found'', w)
             | itemDetails0 # _ \<Rightarrow>
                 (let bd = compute_breakdown (i_price itemDetails0)
                             (daysDiff (ob_start_date body) (ob_end_date body))
                  in case gateway of
                       None \<Rightarrow> (Err 500 ''Failed to create payment order'', w)
                     | Some oid \<Rightarrow>
                         (OrderCreated \<lparr>order_id = oid, amount = total bd,
                                        currency = ''INR'', breakdown_of = bd\<rparr>,
                          w\<lparr>rzp_orders := rzp_orders w @
                             [\<lparr>o_id = oid,
                               o_amount = js_mul (total bd) (Some 100),
                               o_receipt = ''booking_'' @ ob_booking_id body,
                               o_booking_id = ob_booking_id body\<rparr>]\<rparr>))))"

text \<open>
  \<^verbatim>\<open>RazorpayPayment.handlePayment\<close>, lines 58 to 63: the amount the browser passes to
  the checkout widget, \<^verbatim>\<open>amount * 100\<close> on the \<^verbatim>\<open>amount\<close> field of the parsed
  response. A finite number comes back from JSON as the same double; a number that is
  not finite arrives as \<^verbatim>\<open>null\<close>, and \<^verbatim>\<open>null * 100\<close> is 0.
\<close>

definition handlePayment_amount :: "order_response \<Rightarrow> rat option" where
  "handlePayment_amount r =
     (case amount r of None \<Rightarrow> Some 0 | Some a \<Rightarrow> js_mul (Some a) (Some 100))"

subsection \<open>HMAC-SHA256\<close>

text \<open>
  Node's \<^verbatim>\<open>crypto.createHmac('sha256', key).update(text).digest('hex')\<close>, after
  FIPS 180-4 and RFC 2104. Bytes and 32-bit words are natural numbers; every word
  operation reduces modulo \<open>2 ^ 32\<close>. The round constants and the initial hash value
  are written in decimal.
\<close>

definition add32 :: "nat \<Rightarrow> nat \<Rightarrow> nat" where
  "add32 a b = (a + b) mod 4294967296"

definition rotr :: "nat \<Rightarrow> nat \<Rightarrow> nat" where
  "rotr n x = x div 2 ^ n + (x mod 2 ^ n) * 2 ^ (32 - n)"

definition K256 :: "nat list" where
  "K256 =
    [1116352408, 1899447441, 3049323471, 3921009573,
     961987163, 1508970993, 2453635748, 2870763221,
     3624381080, 310598401, 607225278, 1426881987,
     1925078388, 2162078206, 2614888103, 3248222580,
     3835390401, 4022224774, 264347078, 604807628,
     770255983, 1249150122, 1555081692, 1996064986,
     2554220882, 2821834349, 2952996808, 3210313671,
     3336571891, 3584528711, 113926993, 338241895,
     666307205, 773529912, 1294757372, 1396182291,
     1695183700, 1986661051, 2177026350, 2456956037,
     2730485921, 2820302411, 3259730800, 3345764771,
     3516065817, 3600352804, 4094571909, 275423344,
     430227734, 506948616, 659060556, 883997877,
     958139571, 1322822218, 1537002063, 1747873779,
     1955562222, 2024104815, 2227730452, 2361852424,
     2428436474, 2756734187, 3204031479, 3329325298]"

definition H256 :: "nat list" where
  "H256 =
    [1779033703, 3144134277, 1013904242, 2773480762,
     1359893119, 2600822924, 528734635, 1541459225]"

definition ssig0 :: "nat \<Rightarrow> nat" where
  "ssig0 x = rotr 7 x XOR rotr 18 x XOR x div 2 ^ 3"

definition ssig1 :: "nat \<Rightarrow> nat" where
  "ssig1 x = rotr 17 x XOR rotr 19 x XOR x div 2 ^ 10"

definition bsig0 :: "nat \<Rightarrow> nat" where
  "bsig0 x = rotr 2 x XOR rotr 13 x XOR rotr 22 x"

definition bsig1 :: "nat \<Rightarrow> nat" where
  "bsig1 x = rotr 6 x XOR rotr 11 x XOR rotr 25 x"

definition ch :: "nat \<Rightarrow> nat \<Rightarrow> nat \<Rightarrow> nat" where
  "ch e f g = (e AND f) XOR ((4294967295 - e) AND g)"

definition maj :: "nat \<Rightarrow> nat \<Rightarrow> nat \<Rightarrow> nat" where
  "maj a b c = (a AND b) XOR (a AND c) XOR (b AND c)"

text \<open>
  The message schedule, newest word first; one word is added for each element of the
  first list.
\<close>

fun schedule :: "'a list \<Rightarrow> nat list \<Rightarrow> nat list" where
  "schedule [] ws = ws"
| "schedule (u # us) ws =
     schedule us
       (add32 (add32 (add32 (ssig1 (ws ! 1)) (ws ! 6)) (ssig0 (ws ! 14))) (ws ! 15) # ws)"

fun round_step :: "nat \<Rightarrow> nat \<Rightarrow> nat list \<Rightarrow> nat list" where
  "round_step t1 t2 [a, b, c, d, e, f, g, h] = [add32 t1 t2, a, b, c, add32 d t1, e, f, g]"
| "round_step t1 t2 s = s"

fun rounds :: "nat list \<Rightarrow> nat list \<Rightarrow> nat list \<Rightarrow> nat list" where
  "rounds (k # ks) (w # ws) [a, b, c, d, e, f, g, h] =
     rounds ks ws
       (round_step (add32 (add32 (add32 (add32 h (bsig1 e)) (ch e f g)) k) w)
                   (add32 (bsig0 a) (maj a b c))
                   [a, b, c, d, e, f, g, h])"
| "rounds _ _ s = s"

definition compress :: "nat list \<Rightarrow> nat list \<Rightarrow> nat list" where
  "compress st ws = map2 add32 st (rounds K256 (rev (schedule (drop 16 K256) (rev ws))) st)"

fun be_words :: "nat list \<Rightarrow> nat list" where
  "be_words (a # b # c # d # r) = (a * 16777216 + b * 65536 + c * 256 + d) # be_words r"
| "be_words _ = []"

fun blocks :: "nat list \<Rightarrow> nat list \<Rightarrow> nat list" where
  "blocks st (w0 # w1 # w2 # w3 # w4 # w5 # w6 # w7 # w8 # w9 # w10 # w11 # w12 # w13 # w14 # w15 # r) =
     blocks (compress st [w0, w1, w2, w3, w4, w5, w6, w7, w8, w9, w10, w11, w12, w13, w14, w15]) r"
| "blocks st _ = st"

definition pad :: "nat list \<Rightarrow> nat list" where
  "pad m = m @ [128] @ replicate ((119 - length m mod 64) mod 64) 0
             @ map (\<lambda>i. (8 * length m) div 256 ^ i mod 256) [7, 6, 5, 4, 3, 2, 1, 0]"

definition word_bytes :: "nat \<Rightarrow> nat list" where
  "word_bytes w = [w div 16777216, w div 65536 mod 256, w div 256 mod 256, w mod 256]"

definition sha256 :: "nat list \<Rightarrow> nat list" where
  "sha256 m = concat (map word_bytes (blocks H256 (be_words (pad m))))"

definition hmac_sha256 :: "nat list \<Rightarrow> nat list \<Rightarrow> nat list" where
  "hmac_sha256 key msg =
     (let k = (if length key > 64 then sha256 key else key);
          k' = k @ replicate (64 - length k) 0
      in sha256 (map (\<lambda>b. b XOR 92) k' @ sha256 (map (\<lambda>b. b XOR 54) k' @ msg)))"

definition hex_byte :: "nat \<Rightarrow> string" where
  "hex_byte b = [''0123456789abcdef'' ! (b div 16), ''0123456789abcdef'' ! (b mod 16)]"

definition hmac_sha256_hex :: "string \<Rightarrow> string \<Rightarrow> string" where
  "hmac_sha256_hex key text =
     concat (map hex_byte (hmac_sha256 (map of_char key) (map of_char text)))"

subsection \<open>POST /payments/verify\<close>

text \<open>
  Lines 1454 to 1499. The key is
  \<^verbatim>\<open>process.env.RAZORPAY_KEY_SECRET || 'your_key_secret'\<close>: an unset or empty
  variable gives the fallback.
\<close>

definition key_secret :: "string option \<Rightarrow> string" where
  "key_secret env =
     (case env of None \<Rightarrow> ''your_key_secret''
      | Some k \<Rightarrow> if k = [] then ''your_key_secret'' else k)"

text \<open>
  The signature the handler computes; \<open>env\<close> is the environment variable
  \<^verbatim>\<open>RAZORPAY_KEY_SECRET\<close>, \<open>None\<close> when it is not set.
\<close>

definition expected_signature :: "string option \<Rightarrow> verify_body \<Rightarrow> string" where
  "expected_signature env body =
     hmac_sha256_hex (key_secret env) (razorpay_order_id body @ ''|'' @ razorpay_payment_id body)"

text \<open>
  \<^verbatim>\<open>UPDATE Bookings SET status = 'confirmed', payment_status = 'paid' WHERE id = ?\<close>
\<close>

definition confirm_paid :: "string \<Rightarrow> booking list \<Rightarrow> booking list" where
  "confirm_paid bookingId rows =
     map (\<lambda>b. if b_id b = bookingId
              then b\<lparr>b_status := ''confirmed'', b_payment_status := ''paid''\<rparr> else b) rows"

definition payments_verify ::
  "string option \<Rightarrow> token \<Rightarrow> bool \<Rightarrow> verify_body \<Rightarrow> world \<Rightarrow> response \<times> world" where
  "payments_verify env tok conn body w =
     (case authenticateToken tok of
        Inl r \<Rightarrow> (r, w)
      | Inr user \<Rightarrow>
          if expected_signature env body \<noteq> razorpay_signature body
          then (Err 400 ''Invalid payment signature'', w)
          else if \<not> conn then (Err 500 ''Failed to verify payment'', w)
          else (PaymentVerified (razorpay_payment_id body),
                w\<lparr>Bookings := confirm_paid (vb_booking_id body) (Bookings w)\<rparr>))"

subsection \<open>Sequences of operations\<close>

text \<open>
  The three operations that write the \<^verbatim>\<open>Bookings\<close> table, each with the arguments of
  its handler, and the table after a sequence of them.
\<close>

datatype op =
    CreateBooking token bool string booking_body
  | UpdateStatus token bool string string
  | VerifyPayment token bool verify_body

fun apply_op :: "string option \<Rightarrow> world \<Rightarrow> op \<Rightarrow> world" where
  "apply_op env w (CreateBooking tok conn bookingId body) =
     snd (post_bookings tok conn bookingId body w)"
| "apply_op env w (UpdateStatus tok conn bookingId status) =
     snd (put_bookings_status tok conn bookingId status w)"
| "apply_op env w (VerifyPayment tok conn body) =
     snd (payments_verify env tok conn body w)"

fun run_ops :: "string option \<Rightarrow> world \<Rightarrow> op list \<Rightarrow> world" where
  "run_ops env w [] = w"
| "run_ops env w (x # xs) = run_ops env (apply_op env w x) xs"

subsection \<open>Properties of the booking table\<close>

text \<open>A booking that still holds its dates: neither cancelled nor rejected.\<close>

definition active :: "booking \<Rightarrow> bool" where
  "active b \<longleftrightarrow> b_status b \<noteq> ''cancelled'' \<and> b_status b \<noteq> ''rejected''"

text \<open>Two date ranges share a day, both ends included.\<close>

definition ranges_overlap :: "int \<Rightarrow> int \<Rightarrow> int \<Rightarrow> int \<Rightarrow> bool" where
  "ranges_overlap s1 e1 s2 e2 \<longleftrightarrow> s1 \<le> e2 \<and> s2 \<le> e1"

definition double_booked :: "booking \<Rightarrow> booking \<Rightarrow> bool" where
  "double_booked b c \<longleftrightarrow>
     b_item_id b = b_item_id c \<and> active b \<and> active c \<and>
     ranges_overlap (b_start_date b) (b_end_date b) (b_start_date c) (b_end_date c)"

text \<open>No two rows of the table are active bookings of one item with overlapping dates.\<close>

fun no_double_booking :: "booking list \<Rightarrow> bool" where
  "no_double_booking [] = True"
| "no_double_booking (b # bs) = (list_all (\<lambda>c. \<not> double_booked b c) bs \<and> no_double_booking bs)"

text \<open>
  An operation revives a booking when a row that was cancelled or rejected before it is
  active after it. (No operation removes or reorders rows.)
\<close>

definition revives :: "string option \<Rightarrow> world \<Rightarrow> op \<Rightarrow> bool" where
  "revives env w x =
     list_ex (\<lambda>(b, b'). \<not> active b \<and> active b')
       (zip (Bookings w) (Bookings (apply_op env w x)))"

fun never_revives :: "string option \<Rightarrow> world \<Rightarrow> op list \<Rightarrow> bool" where
  "never_revives env w [] = True"
| "never_revives env w (x # xs) =
     (\<not> revives env w x \<and> never_revives env (apply_op env w x) xs)"

text \<open>
  The orders the gateway holds for a booking, oldest first; the last one is the most
  recent.
\<close>

definition orders_for :: "world \<Rightarrow> string \<Rightarrow> rzp_order list" where
  "orders_for w bookingId = filter (\<lambda>ord. o_booking_id ord = bookingId) (rzp_orders w)"

definition is_latest_order :: "world \<Rightarrow> string \<Rightarrow> string \<Rightarrow> bool" where
  "is_latest_order w bookingId orderId \<longleftrightarrow>
     (case rev (orders_for w bookingId) of [] \<Rightarrow> False | ord # _ \<Rightarrow> o_id ord = orderId)"

subsection \<open>Example data\<close>

text \<open>One item, priced 100 a day, and no booking yet.\<close>

definition world0 :: world where
  "world0 = \<lparr>Items = [\<lparr>i_id = ''item-1'', i_owner_id = ''owner-1'', i_price = 100\<rparr>],
             Bookings = [], rzp_orders = []\<rparr>"

definition request_dates :: "int \<times> int \<times> int \<Rightarrow> int \<times> int \<times> int \<Rightarrow> booking_body" where
  "request_dates from to =
     (case (from, to) of ((y1, m1, d1), (y2, m2, d2)) \<Rightarrow>
        \<lparr>item_id = Some ''item-1'', start_date = Some (days_from_civil y1 m1 d1),
         end_date = Some (days_from_civil y2 m2 d2)\<rparr>)"

text \<open>A first booking for 1 to 5 May 2024, made by \<open>renter-1\<close>.\<close>

definition world1 :: world where
  "world1 = snd (post_bookings (ValidToken ''renter-1'') True ''booking-1''
                  (request_dates (2024, 5, 1) (2024, 5, 5)) world0)"

text \<open>
  The owner rejects a booking, a second renter books days inside the freed range, and the
  owner then confirms the rejected booking.
\<close>

definition revival_ops :: "op list" where
  "revival_ops =
     [CreateBooking (ValidToken ''renter-1'') True ''booking-1''
        (request_dates (2024, 5, 1) (2024, 5, 5)),
      UpdateStatus (ValidToken ''owner-1'') True ''booking-1'' ''rejected'',
      CreateBooking (ValidToken ''renter-2'') True ''booking-2''
        (request_dates (2024, 5, 3) (2024, 5, 7)),
      UpdateStatus (ValidToken ''owner-1'') True ''booking-1'' ''confirmed'']"

text \<open>
  The callback of a payment \<open>pay_1\<close> made on the gateway order \<open>order_A\<close>, signed with
  the fallback key, for \<open>booking-1\<close>.
\<close>

definition callback_A :: verify_body where
  "callback_A =
     \<lparr>razorpay_order_id = ''order_A'', razorpay_payment_id = ''pay_1'',
      razorpay_signature = ''8a610e36df8b9c7af42bda84e10b739ecb607b1bf3c4b4577edb78f5dd5b30dd'',
      vb_booking_id = ''booking-1''\<rparr>"

text \<open>
  The owner rejects the first booking, a second renter books the freed days, pays and is
  confirmed.
\<close>

definition quiet_ops :: "op list" where
  "quiet_ops =
     [CreateBooking (ValidToken ''renter-1'') True ''booking-1''
        (request_dates (2024, 5, 1) (2024, 5, 5)),
      UpdateStatus (ValidToken ''owner-1'') True ''booking-1'' ''rejected'',
      CreateBooking (ValidToken ''renter-2'') True ''booking-2''
        (request_dates (2024, 5, 3) (2024, 5, 7)),
      VerifyPayment (ValidToken ''renter-2'') True (callback_A\<lparr>vb_booking_id := ''booking-2''\<rparr>)]"

text \<open>Two payment orders opened one after the other for \<open>booking-1\<close>.\<close>

definition order_request :: order_body where
  "order_request =
     \<lparr>ob_booking_id = ''booking-1'', ob_item_id = ''item-1'',
      ob_start_date = Some (days_from_civil 2024 5 1),
      ob_end_date = Some (days_from_civil 2024 5 3)\<rparr>"

text \<open>
  An item priced 7000000000000 a day, and an order for it from 1 January 2024 to
  31 December 2024, 365 days.
\<close>

definition costly_world :: world where
  "costly_world =
     \<lparr>Items = [\<lparr>i_id = ''item-2'', i_owner_id = ''owner-1'', i_price = 7000000000000\<rparr>],
      Bookings = [], rzp_orders = []\<rparr>"

definition year_request :: order_body where
  "year_request =
     \<lparr>ob_booking_id = ''booking-3'', ob_item_id = ''item-2'',
      ob_start_date = Some (days_from_civil 2024 1 1),
      ob_end_date = Some (days_from_civil 2024 12 31)\<rparr>"

text \<open>An order request whose start date does not parse.\<close>

definition undated_request :: order_body where
  "undated_request =
     \<lparr>ob_booking_id = ''booking-1'', ob_item_id = ''item-1'',
      ob_start_date = None,
      ob_end_date = Some (days_from_civil 2024 5 3)\<rparr>"

definition world_two_orders :: world where
  "world_two_orders =
     snd (payments_create_order (ValidToken ''renter-1'') True (Some ''order_B'') order_request
       (snd (payments_create_order (ValidToken ''renter-1'') True (Some ''order_A'') order_request
          world1)))"

section \<open>Evaluation lemmas\<close>

subsection \<open>One HMAC-SHA256 value\<close>

text \<open>
  The four compressions of HMAC-SHA256 for the key \<open>your_key_secret\<close> and the text
  \<open>order_A|pay_1\<close>: two for the inner hash, two for the outer one.
\<close>

lemmas sha_word_defs = add32_def rotr_def ssig0_def ssig1_def bsig0_def bsig1_def ch_def maj_def
  K256_def H256_def

lemma replicate_numeral_unfold: "replicate (numeral k) x = x # replicate (pred_numeral k) x"
  by (simp add: numeral_eq_Suc)

lemma hmac_inner_1:
  "compress H256
     [1331249988, 1767723855, 1766150997, 1146307126, 909522486, 909522486,
      909522486, 909522486, 909522486, 909522486, 909522486, 909522486,
      909522486, 909522486, 909522486, 909522486] =
     [842864253, 979549748, 1894947131, 925709289, 2124041488, 3186175133,
      701662830, 887723943]"
  by (simp add: compress_def sha_word_defs)

lemma hmac_inner_2:
  "compress
      [842864253, 979549748, 1894947131, 925709289, 2124041488, 3186175133,
       701662830, 887723943]
     [1869767781, 1918845308, 1885436255, 830472192, 0, 0,
      0, 0, 0, 0, 0, 0,
      0, 0, 0, 616] =
     [2905332344, 1370408320, 596633067, 3411706929, 1027031282, 1724383360,
      179569671, 1305377257]"
  by (simp add: compress_def sha_word_defs)

lemma hmac_outer_1:
  "compress H256
     [624109870, 53950757, 53426495, 775497820, 1549556828, 1549556828,
      1549556828, 1549556828, 1549556828, 1549556828, 1549556828, 1549556828,
      1549556828, 1549556828, 1549556828, 1549556828] =
     [803208568, 3927958705, 1692364537, 1270843373, 2679856568, 2335351536,
      3361883567, 3315777361]"
  by (simp add: compress_def sha_word_defs)

lemma hmac_outer_2:
  "compress
      [803208568, 3927958705, 1692364537, 1270843373, 2679856568, 2335351536,
       3361883567, 3315777361]
     [2905332344, 1370408320, 596633067, 3411706929, 1027031282, 1724383360,
      179569671, 1305377257, 2147483648, 0, 0, 0,
      0, 0, 0, 768] =
     [2321616438, 3750468730, 4096514692, 3775624094, 3412097819, 4089754711,
      2128312565, 3713741021]"
  by (simp add: compress_def sha_word_defs)

lemma hmac_example:
  "hmac_sha256_hex ''your_key_secret'' ''order_A|pay_1'' =
     ''8a610e36df8b9c7af42bda84e10b739ecb607b1bf3c4b4577edb78f5dd5b30dd''"
  by (simp add: hmac_sha256_hex_def hmac_sha256_def sha256_def pad_def word_bytes_def hex_byte_def
      replicate_numeral_unfold hmac_inner_1 hmac_inner_2 hmac_outer_1 hmac_outer_2)

subsection \<open>Numbers\<close>

text \<open>
  Floors and ceilings of numeral fractions, for evaluating the rounding on concrete
  numbers, and a few doubles: 0.15 and 0.07 as JavaScript reads them, and the ties
  just above \<open>2 ^ 53\<close>.
\<close>

lemma floor_numeral_divide:
  "\<lfloor>(numeral a :: rat) / numeral b\<rfloor> = numeral a div numeral b"
  "\<lfloor>- ((numeral a :: rat) / numeral b)\<rfloor> = - numeral a div numeral b"
  "\<lfloor>(1 :: rat) / numeral b\<rfloor> = 1 div numeral b"
  "\<lfloor>- ((1 :: rat) / numeral b)\<rfloor> = - 1 div numeral b"
  using floor_divide_of_int_eq [of "numeral a" "numeral b", where ?'a = rat]
    floor_divide_of_int_eq [of "- numeral a" "numeral b", where ?'a = rat]
    floor_divide_of_int_eq [of 1 "numeral b", where ?'a = rat]
    floor_divide_of_int_eq [of "- 1" "numeral b", where ?'a = rat]
  by simp_all

lemma ceiling_numeral_divide:
  "\<lceil>(numeral a :: rat) / numeral b\<rceil> = - (- numeral a div numeral b)"
  "\<lceil>- ((numeral a :: rat) / numeral b)\<rceil> = - (numeral a div numeral b)"
  "\<lceil>(1 :: rat) / numeral b\<rceil> = - (- 1 div numeral b)"
  "\<lceil>- ((1 :: rat) / numeral b)\<rceil> = - (1 div numeral b)"
  unfolding ceiling_def
  using floor_divide_of_int_eq [of "numeral a" "numeral b", where ?'a = rat]
    floor_divide_of_int_eq [of "- numeral a" "numeral b", where ?'a = rat]
    floor_divide_of_int_eq [of 1 "numeral b", where ?'a = rat]
    floor_divide_of_int_eq [of "- 1" "numeral b", where ?'a = rat]
  by simp_all

lemmas number_defs = to_double_def round_at_def round_half_even_def exponent_of_def pow2_def
  bit_length.simps floor_numeral_divide ceiling_numeral_divide
  js_add_def js_sub_def js_mul_def js_div_def Math_ceil_def new_Date_def

lemma double_examples:
  "to_double (15 / 100) = Some (5404319552844595 / 36028797018963968)"
  "to_double (7 / 100) = Some (1261007895663739 / 18014398509481984)"
  "to_double 9007199254740993 = Some 9007199254740992"
  "to_double 9007199254740995 = Some 9007199254740996"
  "to_double (- 9007199254740995) = Some (- 9007199254740996)"
  "to_double (1 / 3) = Some (6004799503160661 / 18014398509481984)"
  by (simp_all add: number_defs)

text \<open>
  Three breakdowns: 100 a day for two days; 0.07 a day for a hundred days, where the
  double product \<^verbatim>\<open>0.07 * 100\<close> lies just above 7; and 7000000000000 a day for 365
  days, whose total times 100 is not a double.
\<close>

lemma breakdown_100_2:
  "compute_breakdown 100 (daysDiff (Some 19844) (Some 19846)) =
     \<lparr>rent_payment = Some 200, platform_fee = Some 30, safety_deposit = 200, total = Some 430\<rparr>"
  by (simp add: compute_breakdown_def daysDiff_def number_defs)

lemma breakdown_fraction:
  "rent_payment (compute_breakdown (7 / 100) (daysDiff (Some 0) (Some 100))) = Some 8"
  by (simp add: compute_breakdown_def daysDiff_def number_defs)

lemma breakdown_large:
  "compute_breakdown 7000000000000 (daysDiff (Some 19723) (Some 20088)) =
     \<lparr>rent_payment = Some 2555000000000000, platform_fee = Some 383250000000000,
      safety_deposit = 200, total = Some 2938250000000200\<rparr>"
  "js_mul (Some 2938250000000200) (Some 100) = Some 293825000000019968"
  by (simp_all add: compute_breakdown_def daysDiff_def number_defs)

text \<open>
  Whole numbers below \<open>2 ^ 53\<close> in magnitude are doubles, and rounding a whole number
  gives a whole number.
\<close>

lemma bit_length_le: "n < 2 ^ k \<Longrightarrow> bit_length n \<le> k"
proof (induction k arbitrary: n)
  case 0
  then show ?case by (simp add: bit_length.simps)
next
  case (Suc k)
  show ?case
  proof (cases "n = 0")
    case True
    then show ?thesis by (simp add: bit_length.simps)
  next
    case False
    from Suc.prems have "n div 2 < 2 ^ k" by simp
    then have "bit_length (n div 2) \<le> k" by (rule Suc.IH)
    with False show ?thesis by (simp add: bit_length.simps [of n])
  qed
qed

lemma bit_length_pos: "n \<noteq> 0 \<Longrightarrow> 0 < bit_length n"
  by (simp add: bit_length.simps [of n])

lemma round_half_even_of_int: "round_half_even (of_int m) = m"
  by (simp add: round_half_even_def)

lemma exponent_of_int:
  assumes "n \<noteq> 0"
  shows "exponent_of (of_int n) = int (bit_length (nat \<bar>n\<bar>)) - 1"
proof -
  have "1 \<le> \<bar>n\<bar>" using assms by simp
  then have "(of_int 1 :: rat) \<le> of_int \<bar>n\<bar>" by (simp only: of_int_le_iff)
  then have "(1 :: rat) \<le> \<bar>of_int n\<bar>" by simp
  moreover have "\<lfloor>\<bar>of_int n :: rat\<bar>\<rfloor> = \<bar>n\<bar>"
    by (metis of_int_abs floor_of_int)
  ultimately show ?thesis by (simp add: exponent_of_def)
qed

lemma round_at_int_small:
  assumes "0 \<le> e" "e \<le> 52"
  shows "round_at e (of_int n) = of_int n"
proof -
  define k where "k = nat (52 - e)"
  have p: "pow2 (e - 52) = 1 / 2 ^ k"
    using assms by (cases "e = 52") (simp_all add: pow2_def k_def)
  have "(of_int n :: rat) / pow2 (e - 52) = of_int (n * 2 ^ k)"
    by (simp add: p)
  then have "round_half_even (of_int n / pow2 (e - 52)) = n * 2 ^ k"
    by (simp only: round_half_even_of_int)
  then show ?thesis
    by (simp add: round_at_def p)
qed

lemma round_at_int_large:
  assumes "52 < e"
  shows "round_at e x \<in> \<int>"
proof -
  have "pow2 (e - 52) = of_int (2 ^ nat (e - 52))"
    using assms by (simp add: pow2_def)
  then show ?thesis
    by (simp add: round_at_def)
qed

lemma to_double_of_int_whole:
  assumes "to_double (of_int n) = Some r"
  shows "r \<in> \<int>"
proof (cases "n = 0")
  case True
  with assms show ?thesis by (simp add: to_double_def)
next
  case False
  define e where "e = int (bit_length (nat \<bar>n\<bar>)) - 1"
  have e0: "0 \<le> e"
    using bit_length_pos [of "nat \<bar>n\<bar>"] False by (simp add: e_def)
  have m: "max (exponent_of (of_int n)) (- 1022) = e"
    using e0 False by (simp add: exponent_of_int e_def)
  from assms False have r: "r = round_at e (of_int n)"
    by (simp add: to_double_def m split: if_splits)
  show ?thesis
  proof (cases "e \<le> 52")
    case True
    with e0 r show ?thesis by (simp add: round_at_int_small)
  next
    case False
    then show ?thesis unfolding r by (intro round_at_int_large) simp
  qed
qed

lemma to_double_of_int_exact:
  assumes "\<bar>n\<bar> < 9007199254740992"
  shows "to_double (of_int n) = Some (of_int n)"
proof (cases "n = 0")
  case True
  then show ?thesis by (simp add: to_double_def)
next
  case False
  define e where "e = int (bit_length (nat \<bar>n\<bar>)) - 1"
  have e0: "0 \<le> e"
    using bit_length_pos [of "nat \<bar>n\<bar>"] False by (simp add: e_def)
  have "nat \<bar>n\<bar> < 2 ^ 53" using assms by simp
  then have "bit_length (nat \<bar>n\<bar>) \<le> 53" by (rule bit_length_le)
  then have e52: "e \<le> 52" by (simp add: e_def)
  have m: "max (exponent_of (of_int n)) (- 1022) = e"
    using e0 False by (simp add: exponent_of_int e_def)
  have r: "round_at e (of_int n) = of_int n"
    using e0 e52 by (rule round_at_int_small)
  have "\<bar>of_int n :: rat\<bar> < 9007199254740992"
    using assms by (metis of_int_abs of_int_less_iff of_int_numeral)
  moreover have "(9007199254740992 :: rat) \<le> pow2 1024"
    by (simp add: pow2_def)
  ultimately have "\<not> pow2 1024 \<le> \<bar>of_int n :: rat\<bar>" by linarith
  with False show ?thesis
    by (simp add: to_double_def m r del: of_int_abs)
qed

lemma js_add_whole:
  assumes "x \<in> \<int>" "y \<in> \<int>" "js_add (Some x) (Some y) = Some r"
  shows "r \<in> \<int>"
proof -
  from assms(1,2) obtain a b where "x = of_int a" "y = of_int b"
    by (auto elim!: Ints_cases)
  with assms(3) have "to_double (of_int (a + b)) = Some r"
    by (simp add: js_add_def)
  then show ?thesis by (rule to_double_of_int_whole)
qed

lemma Math_ceil_whole: "Math_ceil a = Some r \<Longrightarrow> r \<in> \<int>"
  by (auto simp: Math_ceil_def)

lemma total_whole:
  assumes "total (compute_breakdown p d) = Some t"
  shows "t \<in> \<int>"
proof -
  define rent where "rent = Math_ceil (js_mul (to_double p) d)"
  define fee where "fee = Math_ceil (js_mul rent (to_double (15 / 100)))"
  from assms have t: "js_add (js_add rent fee) (Some 200) = Some t"
    by (simp add: compute_breakdown_def rent_def fee_def Let_def)
  then obtain s where s: "js_add rent fee = Some s"
    by (cases "js_add rent fee") (simp_all add: js_add_def)
  then obtain x y where xy: "rent = Some x" "fee = Some y"
    by (cases rent; cases fee) (simp_all add: js_add_def)
  have "x \<in> \<int>" "y \<in> \<int>"
    using xy Math_ceil_whole unfolding rent_def fee_def by blast+
  with s xy have "s \<in> \<int>" using js_add_whole by blast
  moreover have "(200 :: rat) \<in> \<int>" by simp
  ultimately show ?thesis using t s js_add_whole by metis
qed

lemma times_hundred_exact:
  assumes "t \<in> \<int>" "\<bar>t\<bar> * 100 < 9007199254740992"
  shows "js_mul (Some t) (Some 100) = Some (t * 100)"
proof -
  from assms(1) obtain k where k: "t = of_int k" by (auto elim!: Ints_cases)
  have "(of_int (\<bar>k\<bar> * 100) :: rat) < of_int 9007199254740992"
    using assms(2) unfolding k by (simp del: of_int_less_iff)
  then have "\<bar>k * 100\<bar> < 9007199254740992"
    unfolding of_int_less_iff by (simp add: abs_mult)
  then have "to_double (of_int (k * 100)) = Some (of_int (k * 100))"
    by (rule to_double_of_int_exact)
  then show ?thesis by (simp add: js_mul_def k)
qed

lemma times_hundred_430: "js_mul (Some 430) (Some 100) = Some 43000"
  by (simp add: number_defs)

subsection \<open>The example data\<close>

lemma civil_days:
  "days_from_civil 2024 5 1 = 19844" "days_from_civil 2024 5 3 = 19846"
  "days_from_civil 2024 5 5 = 19848" "days_from_civil 2024 5 6 = 19849"
  "days_from_civil 2024 5 7 = 19850" "days_from_civil 2024 5 10 = 19853"
  "days_from_civil 2024 1 1 = 19723" "days_from_civil 2024 12 31 = 20088"
  by (simp_all add: days_from_civil_def)

lemmas handler_defs = post_bookings_def put_bookings_status_def payments_verify_def
  payments_create_order_def overlapCheck_def overlap_clause_def ownerCheck_def
  update_status_def confirm_paid_def expected_signature_def key_secret_def
  request_dates_def civil_days

lemma world1_eq:
  "world1 = world0\<lparr>Bookings :=
     [\<lparr>b_id = ''booking-1'', b_user_id = ''renter-1'', b_item_id = ''item-1'',
       b_start_date = 19844, b_end_date = 19848,
       b_status = ''pending'', b_payment_status = ''unpaid''\<rparr>]\<rparr>"
  by (simp add: world1_def world0_def handler_defs)

lemma revival_ops_result:
  "Bookings (run_ops env world0 revival_ops) =
     [\<lparr>b_id = ''booking-1'', b_user_id = ''renter-1'', b_item_id = ''item-1'',
       b_start_date = 19844, b_end_date = 19848,
       b_status = ''confirmed'', b_payment_status = ''unpaid''\<rparr>,
      \<lparr>b_id = ''booking-2'', b_user_id = ''renter-2'', b_item_id = ''item-1'',
       b_start_date = 19846, b_end_date = 19850,
       b_status = ''pending'', b_payment_status = ''unpaid''\<rparr>]"
  by (simp add: revival_ops_def world0_def handler_defs)

lemma quiet_ops_never_revives: "never_revives None world0 quiet_ops"
  by (simp add: quiet_ops_def callback_A_def world0_def revives_def active_def handler_defs hmac_example)

lemma quiet_ops_result:
  "Bookings (run_ops None world0 quiet_ops) =
     [\<lparr>b_id = ''booking-1'', b_user_id = ''renter-1'', b_item_id = ''item-1'',
       b_start_date = 19844, b_end_date = 19848,
       b_status = ''rejected'', b_payment_status = ''unpaid''\<rparr>,
      \<lparr>b_id = ''booking-2'', b_user_id = ''renter-2'', b_item_id = ''item-1'',
       b_start_date = 19846, b_end_date = 19850,
       b_status = ''confirmed'', b_payment_status = ''paid''\<rparr>]"
  by (simp add: quiet_ops_def callback_A_def world0_def handler_defs hmac_example)

lemma world_two_orders_eq:
  "world_two_orders = world1\<lparr>rzp_orders :=
     [\<lparr>o_id = ''order_A'', o_amount = Some 43000, o_receipt = ''booking_booking-1'',
       o_booking_id = ''booking-1''\<rparr>,
      \<lparr>o_id = ''order_B'', o_amount = Some 43000, o_receipt = ''booking_booking-1'',
       o_booking_id = ''booking-1''\<rparr>]\<rparr>"
  by (simp add: world_two_orders_def order_request_def world1_eq world0_def handler_defs
      breakdown_100_2 times_hundred_430)

section \<open>Booking creation\<close>

lemma overlap_clause_of_overlap:
  "ranges_overlap s1 e1 s2 e2 \<Longrightarrow> overlap_clause s1 e1 s2 e2"
  unfolding overlap_clause_def ranges_overlap_def by auto

lemma overlapCheck_nonempty:
  "overlapCheck rows item s e \<noteq> [] \<longleftrightarrow>
     (\<exists>b\<in>set rows. b_item_id b = item
        \<and> b_status b \<noteq> ''cancelled'' \<and> b_status b \<noteq> ''rejected''
        \<and> overlap_clause (b_start_date b) (b_end_date b) s e)"
  by (auto simp: overlapCheck_def filter_empty_conv)

lemma post_bookings_valid:
  assumes "authenticateToken tok = Inr user"
    and "item_id body = Some item" "start_date body = Some s" "end_date body = Some e"
    and "filter (\<lambda>i. i_id i = item) (Items w) = it # rest"
    and "i_owner_id it \<noteq> user"
  shows "post_bookings tok True bookingId body w =
     (if overlapCheck (Bookings w) item s e \<noteq> []
      then (Err 400 ''Item is not available for selected dates'', w)
      else (BookingCreated bookingId,
            w\<lparr>Bookings := Bookings w @
               [\<lparr>b_id = bookingId, b_user_id = user, b_item_id = item,
                 b_start_date = s, b_end_date = e,
                 b_status = ''pending'', b_payment_status = ''unpaid''\<rparr>]\<rparr>))"
  using assms by (simp add: post_bookings_def)

text \<open>
  C5. For date ranges \<open>[s1, e1]\<close> and \<open>[s2, e2]\<close> with \<open>s1 \<le> e1\<close> and \<open>s2 \<le> e2\<close>, the
  three-disjunct test of the overlap query holds exactly when \<open>s1 \<le> e2\<close> and \<open>s2 \<le> e1\<close>.
  With a booking for 1 to 5 May 2024 in the table, a request for 5 to 10 May is refused
  as unavailable and a request for 6 to 10 May is accepted.
\<close>

theorem overlap_check_inclusive:
  "(\<forall>s1 e1 s2 e2. s1 \<le> e1 \<and> s2 \<le> e2 \<longrightarrow>
      (overlap_clause s1 e1 s2 e2 \<longleftrightarrow> s1 \<le> e2 \<and> s2 \<le> e1))
   \<and> fst (post_bookings (ValidToken ''renter-2'') True ''booking-2''
            (request_dates (2024, 5, 5) (2024, 5, 10)) world1)
       = Err 400 ''Item is not available for selected dates''
   \<and> fst (post_bookings (ValidToken ''renter-2'') True ''booking-2''
            (request_dates (2024, 5, 6) (2024, 5, 10)) world1)
       = BookingCreated ''booking-2''"
proof -
  have "\<forall>s1 e1 s2 e2. s1 \<le> e1 \<and> s2 \<le> e2 \<longrightarrow>
      (overlap_clause s1 e1 s2 e2 \<longleftrightarrow> s1 \<le> e2 \<and> s2 \<le> e1)"
    unfolding overlap_clause_def by auto
  moreover have "fst (post_bookings (ValidToken ''renter-2'') True ''booking-2''
            (request_dates (2024, 5, 5) (2024, 5, 10)) world1)
       = Err 400 ''Item is not available for selected dates''"
    by (simp add: world1_eq world0_def handler_defs)
  moreover have "fst (post_bookings (ValidToken ''renter-2'') True ''booking-2''
            (request_dates (2024, 5, 6) (2024, 5, 10)) world1)
       = BookingCreated ''booking-2''"
    by (simp add: world1_eq world0_def handler_defs)
  ultimately show ?thesis by blast
qed

text \<open>
  Witness for C5: the ranges 1 to 5 May and 5 to 10 May 2024 (days 19844 to 19848 and
  19848 to 19853) are both well formed, and the query test reports the shared day.
\<close>

theorem overlap_check_inclusive_witness:
  "(19844::int) \<le> 19848 \<and> (19848::int) \<le> 19853
   \<and> (overlap_clause 19844 19848 19848 19853 \<longleftrightarrow> (19844::int) \<le> 19853 \<and> (19848::int) \<le> 19848)
   \<and> overlap_clause 19844 19848 19848 19853"
  using overlap_check_inclusive by simp

text \<open>
  Counterexample to C6: once the owner has set the booking for 1 to 5 May to
  \<open>completed\<close>, a request for 3 to 7 May on the same item is refused as unavailable,
  although the same request is accepted when the table is empty.
\<close>

theorem completed_booking_blocks_counterexample:
  "map b_status (Bookings (snd (put_bookings_status (ValidToken ''owner-1'') True ''booking-1''
                                 ''completed'' world1))) = [''completed'']
   \<and> fst (post_bookings (ValidToken ''renter-2'') True ''booking-2''
            (request_dates (2024, 5, 3) (2024, 5, 7))
            (snd (put_bookings_status (ValidToken ''owner-1'') True ''booking-1''
                    ''completed'' world1)))
       = Err 400 ''Item is not available for selected dates''
   \<and> fst (post_bookings (ValidToken ''renter-2'') True ''booking-2''
            (request_dates (2024, 5, 3) (2024, 5, 7)) world0)
       = BookingCreated ''booking-2''"
  by (simp add: world1_eq world0_def handler_defs)

text \<open>
  C6, amended. For an authenticated request with valid fields, for an existing item the
  requester does not own, and with the database reachable: the request is refused as
  unavailable exactly when some booking of the same item, matched by the date test of
  the overlap query, has a status other than \<open>cancelled\<close> and \<open>rejected\<close>. So bookings
  that are \<open>pending\<close>, \<open>confirmed\<close> or \<open>completed\<close> block, and only cancelled and
  rejected ones do not.
\<close>

theorem blocked_iff_not_cancelled_or_rejected:
  assumes "authenticateToken tok = Inr user"
    and "item_id body = Some item" "start_date body = Some s" "end_date body = Some e"
    and "filter (\<lambda>i. i_id i = item) (Items w) = it # rest"
    and "i_owner_id it \<noteq> user"
  shows "fst (post_bookings tok True bookingId body w)
           = Err 400 ''Item is not available for selected dates''
     \<longleftrightarrow> (\<exists>b\<in>set (Bookings w). b_item_id b = item
            \<and> b_status b \<noteq> ''cancelled'' \<and> b_status b \<noteq> ''rejected''
            \<and> overlap_clause (b_start_date b) (b_end_date b) s e)"
  unfolding post_bookings_valid[OF assms] overlapCheck_nonempty[symmetric] by simp

text \<open>
  Witness for C6: with the pending booking for 1 to 5 May, a second renter's request for
  3 to 7 May meets every premise and is refused.
\<close>

theorem blocked_iff_not_cancelled_or_rejected_witness:
  "fst (post_bookings (ValidToken ''renter-2'') True ''booking-2''
          (request_dates (2024, 5, 3) (2024, 5, 7)) world1)
     = Err 400 ''Item is not available for selected dates''
   \<and> (\<exists>b\<in>set (Bookings world1). b_item_id b = ''item-1''
            \<and> b_status b \<noteq> ''cancelled'' \<and> b_status b \<noteq> ''rejected''
            \<and> overlap_clause (b_start_date b) (b_end_date b) 19846 19850)"
proof -
  have ex: "\<exists>b\<in>set (Bookings world1). b_item_id b = ''item-1''
            \<and> b_status b \<noteq> ''cancelled'' \<and> b_status b \<noteq> ''rejected''
            \<and> overlap_clause (b_start_date b) (b_end_date b) 19846 19850"
    by (simp add: world1_eq world0_def overlap_clause_def)
  have "fst (post_bookings (ValidToken ''renter-2'') True ''booking-2''
          (request_dates (2024, 5, 3) (2024, 5, 7)) world1)
     = Err 400 ''Item is not available for selected dates''
     \<longleftrightarrow> (\<exists>b\<in>set (Bookings world1). b_item_id b = ''item-1''
            \<and> b_status b \<noteq> ''cancelled'' \<and> b_status b \<noteq> ''rejected''
            \<and> overlap_clause (b_start_date b) (b_end_date b) 19846 19850)"
    by (rule blocked_iff_not_cancelled_or_rejected
          [where user = "''renter-2''" and it = "\<lparr>i_id = ''item-1'', i_owner_id = ''owner-1'', i_price = 100\<rparr>"
             and rest = "[]"])
       (simp_all add: request_dates_def civil_days world1_eq world0_def)
  with ex show ?thesis by blast
qed

section \<open>The booking table along a run\<close>

lemma no_double_booking_snoc:
  "no_double_booking (bs @ [b]) \<longleftrightarrow>
     no_double_booking bs \<and> list_all (\<lambda>c. \<not> double_booked c b) bs"
  by (induction bs) auto

lemma no_double_booking_map:
  assumes "\<And>b. b \<in> set bs \<Longrightarrow>
             b_item_id (f b) = b_item_id b \<and> b_start_date (f b) = b_start_date b
             \<and> b_end_date (f b) = b_end_date b \<and> (active (f b) \<longrightarrow> active b)"
    and "no_double_booking bs"
  shows "no_double_booking (map f bs)"
  using assms
proof (induction bs)
  case Nil
  then show ?case by simp
next
  case (Cons a bs)
  have "list_all (\<lambda>c. \<not> double_booked (f a) c) (map f bs)"
    unfolding list_all_iff
  proof
    fix c' assume "c' \<in> set (map f bs)"
    then obtain c where c: "c \<in> set bs" "c' = f c" by auto
    from Cons.prems(2) c(1) have "\<not> double_booked a c" by (simp add: list_all_iff)
    with Cons.prems(1)[of a] Cons.prems(1)[of c] c show "\<not> double_booked (f a) c'"
      by (auto simp: double_booked_def)
  qed
  moreover have "no_double_booking (map f bs)"
    using Cons by simp
  ultimately show ?case by simp
qed

lemma list_ex_zip_map:
  "list_ex P (zip xs (map f xs)) \<longleftrightarrow> (\<exists>x\<in>set xs. P (x, f x))"
  by (induction xs) auto

lemma post_bookings_Bookings:
  "Bookings (snd (post_bookings tok conn bookingId body w)) = Bookings w
   \<or> (\<exists>user item s e.
        overlapCheck (Bookings w) item s e = [] \<and>
        Bookings (snd (post_bookings tok conn bookingId body w)) = Bookings w @
          [\<lparr>b_id = bookingId, b_user_id = user, b_item_id = item,
            b_start_date = s, b_end_date = e,
            b_status = ''pending'', b_payment_status = ''unpaid''\<rparr>])"
  by (auto simp: post_bookings_def split: sum.splits option.splits list.splits)

lemma overlapCheck_empty_no_conflict:
  assumes "overlapCheck rows item s e = []" "c \<in> set rows"
  shows "\<not> double_booked c \<lparr>b_id = bid, b_user_id = user, b_item_id = item,
            b_start_date = s, b_end_date = e,
            b_status = st, b_payment_status = ps\<rparr>"
proof
  assume "double_booked c \<lparr>b_id = bid, b_user_id = user, b_item_id = item,
            b_start_date = s, b_end_date = e, b_status = st, b_payment_status = ps\<rparr>"
  then have "b_item_id c = item" "active c" "overlap_clause (b_start_date c) (b_end_date c) s e"
    by (auto simp: double_booked_def intro: overlap_clause_of_overlap)
  with assms(2) have "c \<in> set (overlapCheck rows item s e)"
    by (simp add: overlapCheck_def active_def)
  with assms(1) show False by simp
qed

lemma post_bookings_preserves:
  assumes "no_double_booking (Bookings w)"
  shows "no_double_booking (Bookings (snd (post_bookings tok conn bookingId body w)))"
  using post_bookings_Bookings[of tok conn bookingId body w] assms
  by (auto simp: no_double_booking_snoc list_all_iff dest: overlapCheck_empty_no_conflict)

lemma put_bookings_status_Bookings:
  "Bookings (snd (put_bookings_status tok conn bookingId status w)) = Bookings w
   \<or> Bookings (snd (put_bookings_status tok conn bookingId status w))
       = update_status status bookingId (Bookings w)"
  by (simp add: put_bookings_status_def split: sum.splits)

lemma payments_verify_Bookings:
  "Bookings (snd (payments_verify env tok conn body w)) = Bookings w
   \<or> Bookings (snd (payments_verify env tok conn body w))
       = confirm_paid (vb_booking_id body) (Bookings w)"
  by (simp add: payments_verify_def split: sum.splits)

lemma apply_op_preserves:
  assumes "no_double_booking (Bookings w)" "\<not> revives env w x"
  shows "no_double_booking (Bookings (apply_op env w x))"
proof (cases x)
  case (CreateBooking tok conn bookingId body)
  then show ?thesis using assms(1) by (simp add: post_bookings_preserves)
next
  case (UpdateStatus tok conn bookingId status)
  show ?thesis
    using put_bookings_status_Bookings[of tok conn bookingId status w]
  proof
    assume "Bookings (snd (put_bookings_status tok conn bookingId status w)) = Bookings w"
    then show ?thesis using assms(1) UpdateStatus by simp
  next
    assume u: "Bookings (snd (put_bookings_status tok conn bookingId status w))
       = update_status status bookingId (Bookings w)"
    with assms(2) UpdateStatus
    have "\<forall>b\<in>set (Bookings w). \<not> (\<not> active b \<and>
        active (if b_id b = bookingId then b\<lparr>b_status := status\<rparr> else b))"
      by (simp add: revives_def update_status_def list_ex_zip_map)
    then have "no_double_booking (update_status status bookingId (Bookings w))"
      unfolding update_status_def
      by (intro no_double_booking_map assms(1)) auto
    then show ?thesis using u UpdateStatus by simp
  qed
next
  case (VerifyPayment tok conn body)
  show ?thesis
    using payments_verify_Bookings[of env tok conn body w]
  proof
    assume "Bookings (snd (payments_verify env tok conn body w)) = Bookings w"
    then show ?thesis using assms(1) VerifyPayment by simp
  next
    assume u: "Bookings (snd (payments_verify env tok conn body w))
       = confirm_paid (vb_booking_id body) (Bookings w)"
    with assms(2) VerifyPayment
    have "\<forall>b\<in>set (Bookings w). \<not> (\<not> active b \<and>
        active (if b_id b = vb_booking_id body
                then b\<lparr>b_status := ''confirmed'', b_payment_status := ''paid''\<rparr> else b))"
      by (simp add: revives_def confirm_paid_def list_ex_zip_map)
    then have "no_double_booking (confirm_paid (vb_booking_id body) (Bookings w))"
      unfolding confirm_paid_def
      by (intro no_double_booking_map assms(1)) auto
    then show ?thesis using u VerifyPayment by simp
  qed
qed

lemma run_ops_preserves:
  "no_double_booking (Bookings w) \<Longrightarrow> never_revives env w xs \<Longrightarrow>
   no_double_booking (Bookings (run_ops env w xs))"
  by (induction xs arbitrary: w) (auto intro: apply_op_preserves)

text \<open>
  Counterexample to C1: starting from an empty booking table, a booking for 1 to 5 May
  is created and rejected by the owner, a second booking for 3 to 7 May on the same item
  is created, and the owner then sets the first one to \<open>confirmed\<close>. The table then
  holds a confirmed and a pending booking of one item that share 3 to 5 May.
\<close>

theorem revived_booking_overlaps_counterexample:
  "\<not> no_double_booking (Bookings (run_ops None world0 revival_ops))"
  by (simp add: revival_ops_result double_booked_def active_def ranges_overlap_def)

text \<open>
  C1, amended. Starting from an empty booking table, after any sequence of booking
  creations, status updates and payment verifications in which no operation makes a
  cancelled or rejected booking active again, no two bookings of one item whose status
  is neither \<open>cancelled\<close> nor \<open>rejected\<close> overlap on \<open>[start, end]\<close>, both ends
  included.
\<close>

theorem no_double_booking_without_revival:
  assumes "never_revives env \<lparr>Items = its, Bookings = [], rzp_orders = os\<rparr> xs"
  shows "no_double_booking
           (Bookings (run_ops env \<lparr>Items = its, Bookings = [], rzp_orders = os\<rparr> xs))"
  using assms by (intro run_ops_preserves) simp_all

text \<open>
  Witness for C1: a booking is created and rejected, a second one takes the freed days
  and is confirmed by a verified payment. No step revives a booking, and the final table
  has no double booking.
\<close>

theorem no_double_booking_without_revival_witness:
  "never_revives None world0 quiet_ops
   \<and> no_double_booking (Bookings (run_ops None world0 quiet_ops))
   \<and> map b_status (Bookings (run_ops None world0 quiet_ops)) = [''rejected'', ''confirmed'']"
proof -
  have h: "never_revives None
             \<lparr>Items = [\<lparr>i_id = ''item-1'', i_owner_id = ''owner-1'', i_price = 100\<rparr>],
              Bookings = [], rzp_orders = []\<rparr> quiet_ops"
    using quiet_ops_never_revives by (simp add: world0_def)
  from no_double_booking_without_revival[OF h] h show ?thesis
    by (simp add: world0_def [symmetric] quiet_ops_result)
qed

lemma update_status_written:
  "b \<in> set (update_status status bookingId rows) \<Longrightarrow> b_id b = bookingId \<Longrightarrow> b_status b = status"
  by (induction rows) (simp_all add: update_status_def split: if_splits, (elim disjE; simp)+)

lemma confirm_paid_written:
  "b \<in> set (confirm_paid bookingId rows) \<Longrightarrow> b_id b = bookingId \<Longrightarrow>
     b_status b = ''confirmed'' \<and> b_payment_status b = ''paid''"
  by (induction rows) (simp_all add: confirm_paid_def split: if_splits, (elim disjE; simp)+)

text \<open>
  Counterexample to C4: the owner rejects the booking, then asks for \<open>confirmed\<close>; the
  second request answers success and the rejected booking is confirmed.
\<close>

theorem rejected_becomes_confirmed_counterexample:
  "map b_status (Bookings (snd (put_bookings_status (ValidToken ''owner-1'') True ''booking-1''
                                 ''rejected'' world1))) = [''rejected'']
   \<and> fst (put_bookings_status (ValidToken ''owner-1'') True ''booking-1'' ''confirmed''
            (snd (put_bookings_status (ValidToken ''owner-1'') True ''booking-1''
                    ''rejected'' world1))) = StatusUpdated
   \<and> map b_status (Bookings (snd
        (put_bookings_status (ValidToken ''owner-1'') True ''booking-1'' ''confirmed''
            (snd (put_bookings_status (ValidToken ''owner-1'') True ''booking-1''
                    ''rejected'' world1))))) = [''confirmed'']"
  by (simp add: world1_eq world0_def handler_defs)



text \<open>
  C4, amended. A status change requested with a valid token by the owner of the booked
  item, for one of the four statuses \<open>confirmed\<close>, \<open>rejected\<close>, \<open>completed\<close>,
  \<open>cancelled\<close>, is applied whatever the current status of the booking: the answer is
  success and every row with that identifier carries the requested status. Every request
  that is not answered with success leaves all tables as they were.
\<close>

theorem status_written_whatever_the_current_status:
  "(authenticateToken tok = Inr user
      \<and> status \<in> set [''confirmed'', ''rejected'', ''completed'', ''cancelled'']
      \<and> ownerCheck w bookingId user \<noteq> []
    \<longrightarrow> put_bookings_status tok True bookingId status w
          = (StatusUpdated, w\<lparr>Bookings := update_status status bookingId (Bookings w)\<rparr>)
        \<and> (\<forall>b\<in>set (update_status status bookingId (Bookings w)).
              b_id b = bookingId \<longrightarrow> b_status b = status))
   \<and> (fst (put_bookings_status tok conn bookingId status w) \<noteq> StatusUpdated
    \<longrightarrow> snd (put_bookings_status tok conn bookingId status w) = w)"
proof -
  define S where "S = set [''confirmed'', ''rejected'', ''completed'', ''cancelled'']"
  have handler: "put_bookings_status tok c bookingId status w =
     (case authenticateToken tok of
        Inl r \<Rightarrow> (r, w)
      | Inr user \<Rightarrow>
          if status \<notin> S then (ValidationErrors, w)
          else if \<not> c then (Err 500 ''Failed to update booking'', w)
          else if length (ownerCheck w bookingId user) = 0
          then (Err 403 ''Not authorized to update this booking'', w)
          else (StatusUpdated, w\<lparr>Bookings := update_status status bookingId (Bookings w)\<rparr>))"
    for c
    unfolding put_bookings_status_def S_def by (rule refl)
  have applied: "authenticateToken tok = Inr user \<and> status \<in> S
      \<and> ownerCheck w bookingId user \<noteq> []
    \<longrightarrow> put_bookings_status tok True bookingId status w
          = (StatusUpdated, w\<lparr>Bookings := update_status status bookingId (Bookings w)\<rparr>)"
    by (simp add: handler)
  have written: "\<forall>b\<in>set (update_status status bookingId (Bookings w)).
              b_id b = bookingId \<longrightarrow> b_status b = status"
    using update_status_written by blast
  have refused: "fst (put_bookings_status tok conn bookingId status w) \<noteq> StatusUpdated
    \<longrightarrow> snd (put_bookings_status tok conn bookingId status w) = w"
    by (simp add: handler split: sum.splits)
  from applied written refused show ?thesis
    unfolding S_def by blast
qed

text \<open>
  Witness for C4: the owner moves a pending booking straight to \<open>completed\<close>; the same
  request from the renter is refused and changes nothing.
\<close>

theorem status_written_whatever_the_current_status_witness:
  "put_bookings_status (ValidToken ''owner-1'') True ''booking-1'' ''completed'' world1
     = (StatusUpdated, world1\<lparr>Bookings := update_status ''completed'' ''booking-1'' (Bookings world1)\<rparr>)
   \<and> map b_status (update_status ''completed'' ''booking-1'' (Bookings world1)) = [''completed'']
   \<and> snd (put_bookings_status (ValidToken ''renter-1'') True ''booking-1'' ''completed'' world1)
       = world1"
proof -
  have a: "authenticateToken (ValidToken ''owner-1'') = Inr ''owner-1''
      \<and> ''completed'' \<in> set [''confirmed'', ''rejected'', ''completed'', ''cancelled'']
      \<and> ownerCheck world1 ''booking-1'' ''owner-1'' \<noteq> []"
    by (simp add: world1_eq world0_def ownerCheck_def)
  have b: "fst (put_bookings_status (ValidToken ''renter-1'') True ''booking-1'' ''completed'' world1)
             \<noteq> StatusUpdated"
    by (simp add: world1_eq world0_def handler_defs)
  from a b
    status_written_whatever_the_current_status
      [of "ValidToken ''owner-1''" "''owner-1''" "''completed''" world1 "''booking-1''" True]
    status_written_whatever_the_current_status
      [of "ValidToken ''renter-1''" "''renter-1''" "''completed''" world1 "''booking-1''" True]
  show ?thesis
    by (simp add: world1_eq world0_def update_status_def)
qed

text \<open>
  Counterexample to C9: a request starting on 10 May 2024 and ending on 1 May 2024 is
  answered with success and the booking is stored.
\<close>

theorem start_after_end_is_stored_counterexample:
  "post_bookings (ValidToken ''renter-1'') True ''booking-1''
     (request_dates (2024, 5, 10) (2024, 5, 1)) world0
   = (BookingCreated ''booking-1'',
      world0\<lparr>Bookings :=
        [\<lparr>b_id = ''booking-1'', b_user_id = ''renter-1'', b_item_id = ''item-1'',
          b_start_date = 19853, b_end_date = 19844,
          b_status = ''pending'', b_payment_status = ''unpaid''\<rparr>]\<rparr>)"
  by (simp add: world0_def handler_defs)

text \<open>
  C9, amended. Booking creation validates each date on its own and does not compare
  them: an authenticated request with valid fields, for an existing item the requester
  does not own, with the database reachable and no row matched by the overlap query, is
  stored as \<open>pending\<close> and \<open>unpaid\<close> with the dates as given, whether or not the start
  precedes the end. An authenticated request with a date that fails validation is
  answered with the validation errors and nothing is stored.
\<close>

theorem dates_validated_but_not_ordered:
  "(authenticateToken tok = Inr user
      \<and> item_id body = Some item \<and> start_date body = Some s \<and> end_date body = Some e
      \<and> filter (\<lambda>i. i_id i = item) (Items w) = it # rest \<and> i_owner_id it \<noteq> user
      \<and> overlapCheck (Bookings w) item s e = []
    \<longrightarrow> post_bookings tok True bookingId body w
          = (BookingCreated bookingId,
             w\<lparr>Bookings := Bookings w @
                [\<lparr>b_id = bookingId, b_user_id = user, b_item_id = item,
                  b_start_date = s, b_end_date = e,
                  b_status = ''pending'', b_payment_status = ''unpaid''\<rparr>]\<rparr>))
   \<and> (authenticateToken tok = Inr user
      \<and> (start_date body = None \<or> end_date body = None)
    \<longrightarrow> post_bookings tok conn bookingId body w = (ValidationErrors, w))"
proof (intro conjI impI)
  assume "authenticateToken tok = Inr user
      \<and> item_id body = Some item \<and> start_date body = Some s \<and> end_date body = Some e
      \<and> filter (\<lambda>i. i_id i = item) (Items w) = it # rest \<and> i_owner_id it \<noteq> user
      \<and> overlapCheck (Bookings w) item s e = []"
  then show "post_bookings tok True bookingId body w
          = (BookingCreated bookingId,
             w\<lparr>Bookings := Bookings w @
                [\<lparr>b_id = bookingId, b_user_id = user, b_item_id = item,
                  b_start_date = s, b_end_date = e,
                  b_status = ''pending'', b_payment_status = ''unpaid''\<rparr>]\<rparr>)"
    by (simp add: post_bookings_valid)
next
  assume "authenticateToken tok = Inr user
      \<and> (start_date body = None \<or> end_date body = None)"
  then show "post_bookings tok conn bookingId body w = (ValidationErrors, w)"
    by (auto simp: post_bookings_def split: option.splits)
qed

text \<open>
  Witness for C9: a request from 10 May back to 1 May is stored; a request without a
  valid start date is answered with the validation errors.
\<close>

theorem dates_validated_but_not_ordered_witness:
  "(19853::int) > 19844
   \<and> post_bookings (ValidToken ''renter-2'') True ''booking-2''
        (request_dates (2024, 5, 10) (2024, 5, 1)) world0
      = (BookingCreated ''booking-2'',
         world0\<lparr>Bookings :=
           [\<lparr>b_id = ''booking-2'', b_user_id = ''renter-2'', b_item_id = ''item-1'',
             b_start_date = 19853, b_end_date = 19844,
             b_status = ''pending'', b_payment_status = ''unpaid''\<rparr>]\<rparr>)
   \<and> post_bookings (ValidToken ''renter-2'') True ''booking-2''
        \<lparr>item_id = Some ''item-1'', start_date = None, end_date = Some 19844\<rparr> world0
      = (ValidationErrors, world0)"
proof -
  have a: "authenticateToken (ValidToken ''renter-2'') = Inr ''renter-2''
      \<and> item_id (request_dates (2024, 5, 10) (2024, 5, 1)) = Some ''item-1''
      \<and> start_date (request_dates (2024, 5, 10) (2024, 5, 1)) = Some 19853
      \<and> end_date (request_dates (2024, 5, 10) (2024, 5, 1)) = Some 19844
      \<and> filter (\<lambda>i. i_id i = ''item-1'') (Items world0)
          = \<lparr>i_id = ''item-1'', i_owner_id = ''owner-1'', i_price = 100\<rparr> # []
      \<and> i_owner_id \<lparr>i_id = ''item-1'', i_owner_id = ''owner-1'', i_price = 100\<rparr> \<noteq> ''renter-2''
      \<and> overlapCheck (Bookings world0) ''item-1'' 19853 19844 = []"
    by (simp add: world0_def request_dates_def civil_days overlapCheck_def)
  have b: "authenticateToken (ValidToken ''renter-2'') = Inr ''renter-2''
      \<and> (start_date \<lparr>item_id = Some ''item-1'', start_date = None, end_date = Some 19844\<rparr> = None
         \<or> end_date \<lparr>item_id = Some ''item-1'', start_date = None, end_date = Some 19844\<rparr> = None)"
    by simp
  from a
    dates_validated_but_not_ordered
      [of "ValidToken ''renter-2''" "''renter-2''" "request_dates (2024, 5, 10) (2024, 5, 1)"
          "''item-1''" 19853 19844 world0
          "\<lparr>i_id = ''item-1'', i_owner_id = ''owner-1'', i_price = 100\<rparr>" "[]" "''booking-2''"]
  have 1: "post_bookings (ValidToken ''renter-2'') True ''booking-2''
        (request_dates (2024, 5, 10) (2024, 5, 1)) world0
      = (BookingCreated ''booking-2'',
         world0\<lparr>Bookings := Bookings world0 @
           [\<lparr>b_id = ''booking-2'', b_user_id = ''renter-2'', b_item_id = ''item-1'',
             b_start_date = 19853, b_end_date = 19844,
             b_status = ''pending'', b_payment_status = ''unpaid''\<rparr>]\<rparr>)"
    by blast
  from b
    dates_validated_but_not_ordered
      [of "ValidToken ''renter-2''" "''renter-2''"
          "\<lparr>item_id = Some ''item-1'', start_date = None, end_date = Some 19844\<rparr>"
          _ _ _ world0 _ _ "''booking-2''" True]
  have 2: "post_bookings (ValidToken ''renter-2'') True ''booking-2''
        \<lparr>item_id = Some ''item-1'', start_date = None, end_date = Some 19844\<rparr> world0
      = (ValidationErrors, world0)"
    by blast
  from 1 2 show ?thesis by (simp add: world0_def)
qed

section \<open>Payment verification\<close>

text \<open>
  C2. For an authenticated request with the database reachable, payment verification
  answers success exactly when the supplied signature equals the hex HMAC-SHA256, under
  the configured key, of the order identifier, a bar and the payment identifier. In that
  case every booking with the given identifier is set to \<open>confirmed\<close> and \<open>paid\<close>; any
  other signature is answered with the signature error. The key is the configured secret
  whenever that is not empty.
\<close>

theorem verify_accepts_iff_signature_matches:
  assumes "authenticateToken tok = Inr user"
  shows "((\<exists>p. fst (payments_verify env tok True body w) = PaymentVerified p)
            \<longleftrightarrow> razorpay_signature body
                  = hmac_sha256_hex (key_secret env)
                      (razorpay_order_id body @ ''|'' @ razorpay_payment_id body))
       \<and> (razorpay_signature body
             = hmac_sha256_hex (key_secret env)
                 (razorpay_order_id body @ ''|'' @ razorpay_payment_id body)
          \<longrightarrow> payments_verify env tok True body w
                = (PaymentVerified (razorpay_payment_id body),
                   w\<lparr>Bookings := confirm_paid (vb_booking_id body) (Bookings w)\<rparr>)
              \<and> (\<forall>b\<in>set (confirm_paid (vb_booking_id body) (Bookings w)).
                    b_id b = vb_booking_id body
                    \<longrightarrow> b_status b = ''confirmed'' \<and> b_payment_status b = ''paid''))
       \<and> (razorpay_signature body
             \<noteq> hmac_sha256_hex (key_secret env)
                 (razorpay_order_id body @ ''|'' @ razorpay_payment_id body)
          \<longrightarrow> payments_verify env tok True body w = (Err 400 ''Invalid payment signature'', w))
       \<and> (\<forall>K. K \<noteq> [] \<longrightarrow> key_secret (Some K) = K)"
proof -
  have handler: "payments_verify env tok True body w =
      (if hmac_sha256_hex (key_secret env)
            (razorpay_order_id body @ ''|'' @ razorpay_payment_id body) \<noteq> razorpay_signature body
       then (Err 400 ''Invalid payment signature'', w)
       else (PaymentVerified (razorpay_payment_id body),
             w\<lparr>Bookings := confirm_paid (vb_booking_id body) (Bookings w)\<rparr>))"
    using assms by (simp add: payments_verify_def expected_signature_def)
  have written: "\<forall>b\<in>set (confirm_paid (vb_booking_id body) (Bookings w)).
                    b_id b = vb_booking_id body
                    \<longrightarrow> b_status b = ''confirmed'' \<and> b_payment_status b = ''paid''"
    using confirm_paid_written by blast
  have key: "\<forall>K. K \<noteq> [] \<longrightarrow> key_secret (Some K) = K"
    by (simp add: key_secret_def)
  have iff: "(\<exists>p. fst (payments_verify env tok True body w) = PaymentVerified p)
            \<longleftrightarrow> razorpay_signature body
                  = hmac_sha256_hex (key_secret env)
                      (razorpay_order_id body @ ''|'' @ razorpay_payment_id body)"
    unfolding handler by auto
  from iff written key handler show ?thesis by metis
qed

text \<open>
  Witness for C2: the callback signed with the fallback key is accepted and the booking
  becomes confirmed and paid; the same callback with the first hex digit of the
  signature changed from 8 to 9 (one bit) is refused.
\<close>

theorem verify_accepts_iff_signature_matches_witness:
  "payments_verify None (ValidToken ''renter-1'') True callback_A world1
     = (PaymentVerified ''pay_1'',
        world1\<lparr>Bookings := confirm_paid ''booking-1'' (Bookings world1)\<rparr>)
   \<and> map (\<lambda>b. (b_status b, b_payment_status b)) (confirm_paid ''booking-1'' (Bookings world1))
       = [(''confirmed'', ''paid'')]
   \<and> payments_verify None (ValidToken ''renter-1'') True
        (callback_A\<lparr>razorpay_signature :=
           ''9a610e36df8b9c7af42bda84e10b739ecb607b1bf3c4b4577edb78f5dd5b30dd''\<rparr>) world1
       = (Err 400 ''Invalid payment signature'', world1)"
proof -
  have a: "authenticateToken (ValidToken ''renter-1'') = Inr ''renter-1''" by simp
  have k: "key_secret None = ''your_key_secret''" by (simp add: key_secret_def)
  from verify_accepts_iff_signature_matches [OF a, of None callback_A world1]
    verify_accepts_iff_signature_matches [OF a, of None
      "callback_A\<lparr>razorpay_signature :=
           ''9a610e36df8b9c7af42bda84e10b739ecb607b1bf3c4b4577edb78f5dd5b30dd''\<rparr>" world1]
  show ?thesis
    by (simp add: k callback_A_def hmac_example confirm_paid_def world1_eq world0_def)
qed

text \<open>
  C3. When the supplied signature differs from the expected HMAC value, payment
  verification leaves every table exactly as it was, and an authenticated request is
  answered with status 400 and the message \<open>Invalid payment signature\<close>.
\<close>

theorem bad_signature_changes_nothing:
  assumes "razorpay_signature body
             \<noteq> hmac_sha256_hex (key_secret env)
                 (razorpay_order_id body @ ''|'' @ razorpay_payment_id body)"
  shows "snd (payments_verify env tok conn body w) = w
       \<and> (\<forall>user. authenticateToken tok = Inr user
            \<longrightarrow> fst (payments_verify env tok conn body w) = Err 400 ''Invalid payment signature'')"
  using assms by (simp add: payments_verify_def expected_signature_def split: sum.splits)

text \<open>
  Witness for C3: a callback whose signature is sixty-four zeros is refused and the
  tables are unchanged.
\<close>

theorem bad_signature_changes_nothing_witness:
  "''0000000000000000000000000000000000000000000000000000000000000000''
     \<noteq> hmac_sha256_hex (key_secret None) (''order_A'' @ ''|'' @ ''pay_1'')
   \<and> payments_verify None (ValidToken ''renter-1'') True
        (callback_A\<lparr>razorpay_signature :=
           ''0000000000000000000000000000000000000000000000000000000000000000''\<rparr>) world1
      = (Err 400 ''Invalid payment signature'', world1)"
proof -
  have h: "razorpay_signature (callback_A\<lparr>razorpay_signature :=
           ''0000000000000000000000000000000000000000000000000000000000000000''\<rparr>)
      \<noteq> hmac_sha256_hex (key_secret None)
          (razorpay_order_id (callback_A\<lparr>razorpay_signature :=
             ''0000000000000000000000000000000000000000000000000000000000000000''\<rparr>) @ ''|'' @
           razorpay_payment_id (callback_A\<lparr>razorpay_signature :=
             ''0000000000000000000000000000000000000000000000000000000000000000''\<rparr>))"
    by (simp add: callback_A_def key_secret_def hmac_example)
  from bad_signature_changes_nothing [OF h, of "ValidToken ''renter-1''" True world1] h
  show ?thesis
    by (simp add: callback_A_def prod_eq_iff)
qed

text \<open>
  Counterexample to C8: two orders are opened for \<open>booking-1\<close>, first \<open>order_A\<close>, then
  \<open>order_B\<close>. A callback that names the older \<open>order_A\<close> and carries a valid signature
  is accepted, and the booking becomes confirmed and paid.
\<close>

theorem stale_order_accepted_counterexample:
  "\<not> is_latest_order world_two_orders ''booking-1'' ''order_A''
   \<and> is_latest_order world_two_orders ''booking-1'' ''order_B''
   \<and> payments_verify None (ValidToken ''renter-1'') True callback_A world_two_orders
       = (PaymentVerified ''pay_1'',
          world_two_orders\<lparr>Bookings :=
            [\<lparr>b_id = ''booking-1'', b_user_id = ''renter-1'', b_item_id = ''item-1'',
              b_start_date = 19844, b_end_date = 19848,
              b_status = ''confirmed'', b_payment_status = ''paid''\<rparr>]\<rparr>)"
  by (simp add: world_two_orders_eq world1_eq world0_def is_latest_order_def orders_for_def
      callback_A_def hmac_example payments_verify_def expected_signature_def key_secret_def
      confirm_paid_def)

text \<open>
  C8, amended. Payment verification does not consult the orders opened at the gateway:
  an authenticated request with a matching signature and the database reachable is
  accepted and marks the booking confirmed and paid also when the named order is not
  the most recent order of that booking, and whatever orders are on record.
\<close>

theorem verify_ignores_recorded_orders:
  assumes "authenticateToken tok = Inr user"
    and "razorpay_signature body
           = hmac_sha256_hex (key_secret env)
               (razorpay_order_id body @ ''|'' @ razorpay_payment_id body)"
    and "\<not> is_latest_order w (vb_booking_id body) (razorpay_order_id body)"
  shows "payments_verify env tok True body w
           = (PaymentVerified (razorpay_payment_id body),
              w\<lparr>Bookings := confirm_paid (vb_booking_id body) (Bookings w)\<rparr>)
       \<and> payments_verify env tok True body (w\<lparr>rzp_orders := os\<rparr>)
           = (PaymentVerified (razorpay_payment_id body),
              w\<lparr>Bookings := confirm_paid (vb_booking_id body) (Bookings w), rzp_orders := os\<rparr>)"
  using assms(1,2) by (simp add: payments_verify_def expected_signature_def)

text \<open>
  Witness for C8: no order at all is on record for \<open>booking-1\<close>, yet the signed
  callback naming \<open>order_A\<close> is accepted.
\<close>

theorem verify_ignores_recorded_orders_witness:
  "\<not> is_latest_order world1 ''booking-1'' ''order_A''
   \<and> payments_verify None (ValidToken ''renter-1'') True callback_A world1
       = (PaymentVerified ''pay_1'',
          world1\<lparr>Bookings := confirm_paid ''booking-1'' (Bookings world1)\<rparr>)"
proof -
  have a: "authenticateToken (ValidToken ''renter-1'') = Inr ''renter-1''" by simp
  have s: "razorpay_signature callback_A
           = hmac_sha256_hex (key_secret None)
               (razorpay_order_id callback_A @ ''|'' @ razorpay_payment_id callback_A)"
    by (simp add: callback_A_def key_secret_def hmac_example)
  have n: "\<not> is_latest_order world1 (vb_booking_id callback_A) (razorpay_order_id callback_A)"
    by (simp add: is_latest_order_def orders_for_def world1_eq world0_def)
  from verify_ignores_recorded_orders [OF a s n] n show ?thesis
    by (simp add: callback_A_def)
qed

section \<open>Price breakdown and payment order\<close>

text \<open>
  Counterexample to C7: for a price of 100 a day, from 1 May 2024 to 3 May 2024, the
  computed rent is not 300, the platform fee is not 45 and the total is not 545.
\<close>

theorem breakdown_three_days_counterexample:
  "rent_payment (compute_breakdown 100
      (daysDiff (Some (days_from_civil 2024 5 1)) (Some (days_from_civil 2024 5 3)))) \<noteq> Some 300
   \<and> platform_fee (compute_breakdown 100
      (daysDiff (Some (days_from_civil 2024 5 1)) (Some (days_from_civil 2024 5 3)))) \<noteq> Some 45
   \<and> total (compute_breakdown 100
      (daysDiff (Some (days_from_civil 2024 5 1)) (Some (days_from_civil 2024 5 3)))) \<noteq> Some 545"
  by (simp add: civil_days breakdown_100_2)

text \<open>
  C7, amended. For an item priced 100 a day, a start date of 1 May 2024 and an end date
  of 3 May 2024, every successful create-order request returns rent 200, platform fee
  30, safety deposit 200 and total 430: the duration is the difference of the two dates,
  two days, the end day not being counted. The breakdown depends on the price and the
  two dates only.
\<close>

theorem breakdown_end_day_not_counted:
  assumes "authenticateToken tok = Inr user"
    and "filter (\<lambda>i. i_id i = ob_item_id body) (Items w) = it # rest"
    and "i_price it = 100"
    and "ob_start_date body = Some (days_from_civil 2024 5 1)"
    and "ob_end_date body = Some (days_from_civil 2024 5 3)"
  shows "fst (payments_create_order tok True (Some oid) body w)
           = OrderCreated \<lparr>order_id = oid, amount = Some 430, currency = ''INR'',
               breakdown_of = \<lparr>rent_payment = Some 200, platform_fee = Some 30,
                                safety_deposit = 200, total = Some 430\<rparr>\<rparr>"
  using assms
  by (simp add: payments_create_order_def civil_days breakdown_100_2)

text \<open>
  Witness for C7: the request for \<open>item-1\<close> in the example data.
\<close>

theorem breakdown_end_day_not_counted_witness:
  "fst (payments_create_order (ValidToken ''renter-1'') True (Some ''order_A'') order_request world1)
     = OrderCreated \<lparr>order_id = ''order_A'', amount = Some 430, currency = ''INR'',
         breakdown_of = \<lparr>rent_payment = Some 200, platform_fee = Some 30,
                          safety_deposit = 200, total = Some 430\<rparr>\<rparr>"
proof -
  have a: "authenticateToken (ValidToken ''renter-1'') = Inr ''renter-1''" by simp
  have i: "filter (\<lambda>i. i_id i = ob_item_id order_request) (Items world1)
             = \<lparr>i_id = ''item-1'', i_owner_id = ''owner-1'', i_price = 100\<rparr> # []"
    by (simp add: order_request_def world1_eq world0_def)
  have p: "i_price \<lparr>i_id = ''item-1'', i_owner_id = ''owner-1'', i_price = 100\<rparr> = 100" by simp
  have s: "ob_start_date order_request = Some (days_from_civil 2024 5 1)"
    and e: "ob_end_date order_request = Some (days_from_civil 2024 5 3)"
    by (simp_all add: order_request_def)
  show ?thesis by (rule breakdown_end_day_not_counted [OF a i p s e])
qed

lemma create_order_success:
  assumes "payments_create_order tok conn gateway body w = (OrderCreated r, w')"
  shows "\<exists>(it :: item) oid.
           r = \<lparr>order_id = oid,
                amount = total (compute_breakdown (i_price it)
                           (daysDiff (ob_start_date body) (ob_end_date body))),
                currency = ''INR'',
                breakdown_of = compute_breakdown (i_price it)
                           (daysDiff (ob_start_date body) (ob_end_date body))\<rparr>
         \<and> rzp_orders w' = rzp_orders w @
               [\<lparr>o_id = oid,
                 o_amount = js_mul (total (compute_breakdown (i_price it)
                   (daysDiff (ob_start_date body) (ob_end_date body)))) (Some 100),
                 o_receipt = ''booking_'' @ ob_booking_id body,
                 o_booking_id = ob_booking_id body\<rparr>]"
proof (cases tok)
  case NoToken
  with assms show ?thesis by (simp add: payments_create_order_def)
next
  case InvalidToken
  with assms show ?thesis by (simp add: payments_create_order_def)
next
  case (ValidToken user)
  show ?thesis
  proof (cases "filter (\<lambda>i. i_id i = ob_item_id body) (Items w)")
    case Nil
    with assms ValidToken show ?thesis
      by (simp add: payments_create_order_def split: if_splits)
  next
    case (Cons it rest)
    show ?thesis
    proof (cases gateway)
      case None
      with assms ValidToken Cons show ?thesis
        by (simp add: payments_create_order_def Let_def split: if_splits)
    next
      case (Some oid)
      define bd where "bd = compute_breakdown (i_price it)
                           (daysDiff (ob_start_date body) (ob_end_date body))"
      have "payments_create_order tok conn gateway body w =
          (if \<not> conn then (Err 500 ''Failed to create payment order'', w)
           else (OrderCreated \<lparr>order_id = oid, amount = total bd,
                                currency = ''INR'', breakdown_of = bd\<rparr>,
                 w\<lparr>rzp_orders := rzp_orders w @
                     [\<lparr>o_id = oid, o_amount = js_mul (total bd) (Some 100),
                       o_receipt = ''booking_'' @ ob_booking_id body,
                       o_booking_id = ob_booking_id body\<rparr>]\<rparr>))"
        unfolding payments_create_order_def bd_def Let_def
        by (simp only: ValidToken Cons Some authenticateToken.simps sum.case list.case option.case)
      with assms have "r = \<lparr>order_id = oid, amount = total bd,
                                currency = ''INR'', breakdown_of = bd\<rparr>"
        and "w' = w\<lparr>rzp_orders := rzp_orders w @
                     [\<lparr>o_id = oid, o_amount = js_mul (total bd) (Some 100),
                       o_receipt = ''booking_'' @ ob_booking_id body,
                       o_booking_id = ob_booking_id body\<rparr>]\<rparr>"
        by (simp_all split: if_splits)
      then have "r = \<lparr>order_id = oid, amount = total bd,
                                currency = ''INR'', breakdown_of = bd\<rparr>
         \<and> rzp_orders w' = rzp_orders w @
                     [\<lparr>o_id = oid, o_amount = js_mul (total bd) (Some 100),
                       o_receipt = ''booking_'' @ ob_booking_id body,
                       o_booking_id = ob_booking_id body\<rparr>]"
        by simp
      then show ?thesis unfolding bd_def by (intro exI)
    qed
  qed
qed

text \<open>
  Counterexample to C10: for the item priced 7000000000000 a day and 365 days the request
  succeeds with total 2938250000000200, and the amount of the order opened at the
  gateway is 293825000000019968, which is not 100 times that total.
\<close>

theorem gateway_amount_rounded_counterexample:
  "payments_create_order (ValidToken ''renter-1'') True (Some ''order_C'') year_request
       costly_world
     = (OrderCreated \<lparr>order_id = ''order_C'', amount = Some 2938250000000200,
          currency = ''INR'',
          breakdown_of = \<lparr>rent_payment = Some 2555000000000000,
                           platform_fee = Some 383250000000000,
                           safety_deposit = 200, total = Some 2938250000000200\<rparr>\<rparr>,
        costly_world\<lparr>rzp_orders :=
          [\<lparr>o_id = ''order_C'', o_amount = Some 293825000000019968,
            o_receipt = ''booking_booking-3'', o_booking_id = ''booking-3''\<rparr>]\<rparr>)
   \<and> (293825000000019968 :: rat) \<noteq> 100 * 2938250000000200"
  by (simp add: payments_create_order_def costly_world_def year_request_def civil_days
      breakdown_large)

text \<open>
  C10, amended. For every successful create-order request, the response's amount is
  the total of its breakdown, a whole number of rupees when it is a number, and the
  amount of the order opened at the gateway is the double-precision product of that
  total and 100. Whenever 100 times the total is below \<open>2 ^ 53\<close> in magnitude, the
  gateway amount is exactly 100 times the total. For every total that is a number the
  browser's own multiplication by 100 gives the gateway amount again. When the total is
  not a finite number, the gateway amount is not one either and the browser, reading
  \<open>null\<close>, computes 0.
\<close>

theorem gateway_amount_hundredfold_below_2_53:
  assumes "payments_create_order tok conn gateway body w = (OrderCreated r, w')"
  shows "\<exists>ord. rzp_orders w' = rzp_orders w @ [ord]
           \<and> o_id ord = order_id r
           \<and> amount r = total (breakdown_of r)
           \<and> o_amount ord = js_mul (total (breakdown_of r)) (Some 100)
           \<and> (\<forall>t. total (breakdown_of r) = Some t \<longrightarrow>
                 t \<in> \<int> \<and> handlePayment_amount r = o_amount ord
                 \<and> (\<bar>t\<bar> * 100 < 9007199254740992 \<longrightarrow> o_amount ord = Some (t * 100)))
           \<and> (total (breakdown_of r) = None \<longrightarrow>
                 o_amount ord = None \<and> handlePayment_amount r = Some 0)"
proof -
  from create_order_success [OF assms] obtain it :: item and oid where
    r: "r = \<lparr>order_id = oid,
                amount = total (compute_breakdown (i_price it)
                           (daysDiff (ob_start_date body) (ob_end_date body))),
                currency = ''INR'',
                breakdown_of = compute_breakdown (i_price it)
                           (daysDiff (ob_start_date body) (ob_end_date body))\<rparr>"
    and w': "rzp_orders w' = rzp_orders w @
               [\<lparr>o_id = oid,
                 o_amount = js_mul (total (compute_breakdown (i_price it)
                   (daysDiff (ob_start_date body) (ob_end_date body)))) (Some 100),
                 o_receipt = ''booking_'' @ ob_booking_id body,
                 o_booking_id = ob_booking_id body\<rparr>]"
    by blast
  define bd where "bd = compute_breakdown (i_price it)
                           (daysDiff (ob_start_date body) (ob_end_date body))"
  define ord where "ord = \<lparr>o_id = oid, o_amount = js_mul (total bd) (Some 100),
                 o_receipt = ''booking_'' @ ob_booking_id body,
                 o_booking_id = ob_booking_id body\<rparr>"
  have appended: "rzp_orders w' = rzp_orders w @ [ord]"
    unfolding w' ord_def bd_def by (rule refl)
  have fields: "o_id ord = order_id r" "amount r = total (breakdown_of r)"
    "o_amount ord = js_mul (total (breakdown_of r)) (Some 100)" "breakdown_of r = bd"
    "amount r = total bd" "o_amount ord = js_mul (total bd) (Some 100)"
    by (simp_all add: r ord_def bd_def)
  have number: "\<forall>t. total bd = Some t \<longrightarrow>
                 t \<in> \<int> \<and> handlePayment_amount r = o_amount ord
                 \<and> (\<bar>t\<bar> * 100 < 9007199254740992 \<longrightarrow> o_amount ord = Some (t * 100))"
  proof (intro allI impI conjI)
    fix t assume t: "total bd = Some t"
    then show whole: "t \<in> \<int>" unfolding bd_def by (rule total_whole)
    show "handlePayment_amount r = o_amount ord"
      by (simp add: handlePayment_amount_def fields(5,6) t)
    assume "\<bar>t\<bar> * 100 < 9007199254740992"
    with whole have "js_mul (Some t) (Some 100) = Some (t * 100)"
      by (rule times_hundred_exact)
    then show "o_amount ord = Some (t * 100)"
      by (simp add: fields(6) t)
  qed
  have no_number: "total bd = None \<longrightarrow> o_amount ord = None \<and> handlePayment_amount r = Some 0"
    by (simp add: handlePayment_amount_def fields(5,6) js_mul_def)
  show ?thesis
  proof (intro exI [of _ ord] conjI)
    show "rzp_orders w' = rzp_orders w @ [ord]" by (rule appended)
    show "o_id ord = order_id r" by (rule fields(1))
    show "amount r = total (breakdown_of r)" by (rule fields(2))
    show "o_amount ord = js_mul (total (breakdown_of r)) (Some 100)" by (rule fields(3))
    show "\<forall>t. total (breakdown_of r) = Some t \<longrightarrow>
                 t \<in> \<int> \<and> handlePayment_amount r = o_amount ord
                 \<and> (\<bar>t\<bar> * 100 < 9007199254740992 \<longrightarrow> o_amount ord = Some (t * 100))"
      unfolding fields(4) by (rule number)
    show "total (breakdown_of r) = None \<longrightarrow>
                 o_amount ord = None \<and> handlePayment_amount r = Some 0"
      unfolding fields(4) by (rule no_number)
  qed
qed

text \<open>
  Witness for C10: the order for two days at 100 a day has total 430 and is opened at
  the gateway for 43000, which the browser computes as well; the order whose start date
  does not parse has no number as total, and the browser computes 0.
\<close>

theorem gateway_amount_hundredfold_below_2_53_witness:
  "(\<exists>ord. rzp_orders (snd (payments_create_order (ValidToken ''renter-1'') True
                             (Some ''order_A'') order_request world1))
             = rzp_orders world1 @ [ord]
        \<and> o_amount ord = Some 43000)
   \<and> handlePayment_amount \<lparr>order_id = ''order_A'', amount = Some 430, currency = ''INR'',
        breakdown_of = \<lparr>rent_payment = Some 200, platform_fee = Some 30,
                         safety_deposit = 200, total = Some 430\<rparr>\<rparr> = Some 43000
   \<and> (\<exists>ord. rzp_orders (snd (payments_create_order (ValidToken ''renter-1'') True
                             (Some ''order_A'') undated_request world1))
             = rzp_orders world1 @ [ord]
        \<and> o_amount ord = None)
   \<and> handlePayment_amount \<lparr>order_id = ''order_A'', amount = None, currency = ''INR'',
        breakdown_of = \<lparr>rent_payment = None, platform_fee = None,
                         safety_deposit = 200, total = None\<rparr>\<rparr> = Some 0"
proof -
  have h: "payments_create_order (ValidToken ''renter-1'') True (Some ''order_A'') order_request world1
     = (OrderCreated \<lparr>order_id = ''order_A'', amount = Some 430, currency = ''INR'',
         breakdown_of = \<lparr>rent_payment = Some 200, platform_fee = Some 30,
                          safety_deposit = 200, total = Some 430\<rparr>\<rparr>,
        snd (payments_create_order (ValidToken ''renter-1'') True (Some ''order_A'')
               order_request world1))"
    by (simp add: payments_create_order_def civil_days breakdown_100_2 order_request_def
        world1_eq world0_def)
  have u: "payments_create_order (ValidToken ''renter-1'') True (Some ''order_A'') undated_request world1
     = (OrderCreated \<lparr>order_id = ''order_A'', amount = None, currency = ''INR'',
         breakdown_of = \<lparr>rent_payment = None, platform_fee = None,
                          safety_deposit = 200, total = None\<rparr>\<rparr>,
        snd (payments_create_order (ValidToken ''renter-1'') True (Some ''order_A'')
               undated_request world1))"
    by (simp add: payments_create_order_def compute_breakdown_def daysDiff_def number_defs
        undated_request_def world1_eq world0_def)
  have small: "\<bar>430 :: rat\<bar> * 100 < 9007199254740992" by simp
  from gateway_amount_hundredfold_below_2_53 [OF h] small
    gateway_amount_hundredfold_below_2_53 [OF u]
  show ?thesis
    by (auto simp: handlePayment_amount_def)
qed

end
